theory Spec2Isabelle
  imports Complex_Main "HOL-Library.Multiset"
begin

section \<open>JavaScript numbers and dates\<close>

text \<open>
  A JavaScript \<open>number\<close> is an IEEE double. The validators of this program only compare
  numbers and take absolute values, and both are exact on doubles, so a number is
  modelled by the real it denotes, next to the three values that denote none. Every
  finite double is a real, so a statement about all \<open>Fin x\<close> covers all finite doubles.
  A comparison with \<open>NaN\<close> on either side is false, as in IEEE 754. The two zeros compare
  equal, have the same absolute value and the same text, so they are one value here.
\<close>

datatype jsnum = NaN | PosInf | NegInf | Fin real

fun js_lt :: "jsnum \<Rightarrow> jsnum \<Rightarrow> bool" where
  "js_lt NaN _ = False"
| "js_lt _ NaN = False"
| "js_lt (Fin x) (Fin y) = (x < y)"
| "js_lt _ NegInf = False"
| "js_lt PosInf _ = False"
| "js_lt NegInf _ = True"
| "js_lt _ PosInf = True"

fun js_le :: "jsnum \<Rightarrow> jsnum \<Rightarrow> bool" where
  "js_le NaN _ = False"
| "js_le _ NaN = False"
| "js_le (Fin x) (Fin y) = (x \<le> y)"
| "js_le NegInf _ = True"
| "js_le _ PosInf = True"
| "js_le _ NegInf = False"
| "js_le PosInf _ = False"

definition js_gt :: "jsnum \<Rightarrow> jsnum \<Rightarrow> bool" where
  "js_gt a b = js_lt b a"

text \<open>\<open>Math.abs\<close>.\<close>

fun Math_abs :: "jsnum \<Rightarrow> jsnum" where
  "Math_abs NaN = NaN"
| "Math_abs PosInf = PosInf"
| "Math_abs NegInf = PosInf"
| "Math_abs (Fin x) = Fin \<bar>x\<bar>"

text \<open>
  A \<open>Date\<close> is represented by its time value, the milliseconds since the epoch
  (\<open>getTime()\<close>); \<open>new Date()\<close> reads the clock, which the model takes as an argument.
\<close>

type_synonym jsdate = int

text \<open>
  A JavaScript string is a sequence of UTF-16 code units. A \<open>char\<close> stands for a code unit
  below 256 (the Latin-1 range, which holds ASCII); a string with a higher code unit is
  outside the model.
\<close>

text \<open>
  What a \<open>throw\<close> carries: a \<open>TypeError\<close>, an \<open>Error\<close> with its message, or any other
  thrown value.
\<close>

datatype js_error = TypeError | Error string | OtherThrown

text \<open>Decimal rendering of an integer, as a template literal renders a row id or a BigInt.\<close>

definition digit_chars :: string where
  "digit_chars = ''0123456789''"

fun nat_str :: "nat \<Rightarrow> string" where
  "nat_str n = (if n < 10 then [digit_chars ! n] else nat_str (n div 10) @ [digit_chars ! (n mod 10)])"

declare nat_str.simps [simp del]

definition int_str :: "int \<Rightarrow> string" where
  "int_str i = (if i < 0 then ''-'' @ nat_str (nat (- i)) else nat_str (nat i))"

section \<open>GPS samples (types/location.ts)\<close>

record location_point =
  latitude :: jsnum
  longitude :: jsnum
  timestamp :: jsdate
  accuracy :: jsnum
  speed :: "jsnum option"
  heading :: "jsnum option"

section \<open>Coordinate ranges (utils/coordinates.ts)\<close>

definition MAX_LATITUDE :: jsnum where
  "MAX_LATITUDE = Fin 90"

definition MAX_LONGITUDE :: jsnum where
  "MAX_LONGITUDE = Fin 180"

definition isValidLatitude :: "jsnum \<Rightarrow> bool" where
  "isValidLatitude lat = js_le (Math_abs lat) MAX_LATITUDE"

definition isValidLongitude :: "jsnum \<Rightarrow> bool" where
  "isValidLongitude lon = js_le (Math_abs lon) MAX_LONGITUDE"

section \<open>Domain validation (types/location.ts, utils/errors.ts)\<close>

datatype LocationErrorCode =
    INVALID_COORDINATES
  | LATITUDE_OUT_OF_RANGE
  | LONGITUDE_OUT_OF_RANGE
  | IDENTICAL_POINTS
  | NEGATIVE_ACCURACY
  | NEGATIVE_SPEED
  | INVALID_HEADING
  | INVALID_GPS_ACCURACY

record LocationError =
  code :: LocationErrorCode
  message :: string
  field :: string

record ValidationResult =
  isValid :: bool
  error :: "LocationError option"

text \<open>
  The accuracy tiers, as the object literal \<open>GPS_ACCURACY\<close> lists them: property name and
  value, in source order.
\<close>

definition GPS_ACCURACY :: "(string \<times> string) list" where
  "GPS_ACCURACY =
     [(''BEST'', ''best''),
      (''NEAREST_TEN_METERS'', ''nearest-ten-meters''),
      (''HUNDRED_METERS'', ''hundred-meters''),
      (''KILOMETER'', ''kilometer''),
      (''THREE_KILOMETERS'', ''three-kilometers'')]"

definition Object_values :: "(string \<times> 'a) list \<Rightarrow> 'a list" where
  "Object_values obj = map snd obj"

text \<open>\<open>Array.prototype.join\<close> on an array of strings.\<close>

fun array_join :: "string \<Rightarrow> string list \<Rightarrow> string" where
  "array_join sep [] = []"
| "array_join sep [x] = x"
| "array_join sep (x # y # ys) = x @ sep @ array_join sep (y # ys)"

text \<open>
  \<open>validateGPSAccuracyDetailed\<close> takes an \<open>unknown\<close>: any JavaScript value. An object is
  represented by what its conversion to a string gives, a text or a throw, which is all
  the validator can observe of it. Only a string can be a member of a \<open>Set\<close> of strings.
\<close>

datatype js_value =
    JUndefined
  | JNull
  | JBoolean bool
  | JNumber jsnum
  | JBigInt int
  | JString string
  | JSymbol
  | JObject "js_error + string"

definition VALID_GPS_ACCURACIES :: "js_value list" where
  "VALID_GPS_ACCURACIES = map JString (Object_values GPS_ACCURACY)"

definition validateGPSAccuracy :: "js_value \<Rightarrow> bool" where
  "validateGPSAccuracy acc = (acc \<in> set VALID_GPS_ACCURACIES)"

text \<open>
  The conversion a template literal applies to an embedded value. A symbol cannot be
  converted and throws a \<open>TypeError\<close>; the number-to-string conversion of the runtime is
  the argument \<open>num_str\<close>.
\<close>

fun ToString :: "(jsnum \<Rightarrow> string) \<Rightarrow> js_value \<Rightarrow> js_error + string" where
  "ToString num_str JUndefined = Inr ''undefined''"
| "ToString num_str JNull = Inr ''null''"
| "ToString num_str (JBoolean b) = Inr (if b then ''true'' else ''false'')"
| "ToString num_str (JNumber n) = Inr (num_str n)"
| "ToString num_str (JBigInt i) = Inr (int_str i)"
| "ToString num_str (JString str) = Inr str"
| "ToString num_str JSymbol = Inl TypeError"
| "ToString num_str (JObject outcome) = outcome"

text \<open>
  The message is built only on the rejecting branch, and a throw of the conversion leaves
  the validator.
\<close>

definition validateGPSAccuracyDetailed :: "(jsnum \<Rightarrow> string) \<Rightarrow> js_value \<Rightarrow> js_error + ValidationResult" where
  "validateGPSAccuracyDetailed num_str acc =
     (if \<not> validateGPSAccuracy acc then
        (case ToString num_str acc of
           Inl e \<Rightarrow> Inl e
         | Inr txt \<Rightarrow>
             Inr \<lparr>isValid = False,
                  error = Some
                    \<lparr>code = INVALID_GPS_ACCURACY,
                     message = ''Invalid GPS accuracy: '' @ txt @ ''. Must be one of: '' @
                       array_join '', '' (Object_values GPS_ACCURACY) @ ''.'',
                     field = ''accuracy''\<rparr>\<rparr>)
      else Inr \<lparr>isValid = True, error = None\<rparr>)"

text \<open>
  \<open>validateLocationPointDetailed\<close>. The messages embed numbers through the runtime's
  number-to-string conversion, the argument \<open>num_str\<close>. A nullable field is an \<open>option\<close>;
  \<open>the\<close> reads it only behind the test that it is not \<open>null\<close>.
\<close>

definition validateLocationPointDetailed :: "(jsnum \<Rightarrow> string) \<Rightarrow> location_point \<Rightarrow> ValidationResult" where
  "validateLocationPointDetailed num_str location =
     (if \<not> isValidLatitude (latitude location) then
        \<lparr>isValid = False,
         error = Some
           \<lparr>code = LATITUDE_OUT_OF_RANGE,
            message = ''Invalid latitude: '' @ num_str (latitude location) @
              ''. Must be between -90 and 90.'',
            field = ''latitude''\<rparr>\<rparr>
      else if \<not> isValidLongitude (longitude location) then
        \<lparr>isValid = False,
         error = Some
           \<lparr>code = LONGITUDE_OUT_OF_RANGE,
            message = ''Invalid longitude: '' @ num_str (longitude location) @
              ''. Must be between -180 and 180.'',
            field = ''longitude''\<rparr>\<rparr>
      else if js_lt (accuracy location) (Fin 0) then
        \<lparr>isValid = False,
         error = Some
           \<lparr>code = NEGATIVE_ACCURACY,
            message = ''Invalid accuracy: '' @ num_str (accuracy location) @
              ''. Must be non-negative.'',
            field = ''accuracy''\<rparr>\<rparr>
      else if speed location \<noteq> None \<and> js_lt (the (speed location)) (Fin 0) then
        \<lparr>isValid = False,
         error = Some
           \<lparr>code = NEGATIVE_SPEED,
            message = ''Invalid speed: '' @ num_str (the (speed location)) @
              ''. Must be non-negative or null.'',
            field = ''speed''\<rparr>\<rparr>
      else if heading location \<noteq> None \<and>
              (js_lt (the (heading location)) (Fin 0) \<or> js_gt (the (heading location)) (Fin 360)) then
        \<lparr>isValid = False,
         error = Some
           \<lparr>code = INVALID_HEADING,
            message = ''Invalid heading: '' @ num_str (the (heading location)) @
              ''. Must be between 0 and 360 or null.'',
            field = ''heading''\<rparr>\<rparr>
      else \<lparr>isValid = True, error = None\<rparr>)"

definition validateLocationPoint :: "(jsnum \<Rightarrow> string) \<Rightarrow> location_point \<Rightarrow> bool" where
  "validateLocationPoint num_str location = isValid (validateLocationPointDetailed num_str location)"

section \<open>The collection session (stores/footprintStore.ts)\<close>

record footprint_state =
  isCollecting :: bool
  startTime :: "jsdate option"
  locationPoints :: "location_point list"
  currentLocation :: "location_point option"
  currentSpeed :: "jsnum option"

definition initialState :: footprint_state where
  "initialState =
     \<lparr>isCollecting = False, startTime = None, locationPoints = [],
      currentLocation = None, currentSpeed = None\<rparr>"

text \<open>
  Each action is the function handed to zustand's \<open>set\<close>, which merges the returned
  fields into the state; the five data fields are the whole state of the model.
\<close>

definition startCollecting :: "jsdate \<Rightarrow> footprint_state \<Rightarrow> footprint_state" where
  "startCollecting now state = state\<lparr>isCollecting := True, startTime := Some now\<rparr>"

definition stopCollecting :: "footprint_state \<Rightarrow> footprint_state" where
  "stopCollecting state = initialState"

definition reset :: "footprint_state \<Rightarrow> footprint_state" where
  "reset state = initialState"

definition addLocationPoint :: "location_point \<Rightarrow> footprint_state \<Rightarrow> footprint_state" where
  "addLocationPoint location state =
     (if \<not> isCollecting state then state
      else state\<lparr>locationPoints := locationPoints state @ [location],
                 currentLocation := Some location,
                 currentSpeed := speed location\<rparr>)"

section \<open>Routes (types/route.ts)\<close>

text \<open>
  The fields \<open>id\<close>, \<open>locationPoints\<close> and \<open>startTime\<close> of a \<open>Route\<close> carry the prefix
  \<open>route_\<close> here: \<open>id\<close> is HOL's identity function and the other two are fields of the
  session state as well.
\<close>

record route =
  route_id :: string
  name :: string
  route_locationPoints :: "location_point list"
  route_startTime :: jsdate
  endTime :: jsdate
  pointCount :: int

section \<open>The route catalog (stores/routeStore.ts)\<close>

text \<open>
  A JavaScript \<open>Map\<close> keeps its entries in insertion order: \<open>set\<close> on a key it holds
  replaces the value in place, \<open>set\<close> on a new key appends, \<open>delete\<close> removes the entry.
\<close>

type_synonym ('k, 'v) js_map = "('k \<times> 'v) list"

fun Map_set :: "'k \<Rightarrow> 'v \<Rightarrow> ('k, 'v) js_map \<Rightarrow> ('k, 'v) js_map" where
  "Map_set k v [] = [(k, v)]"
| "Map_set k v (e # m) = (if fst e = k then (k, v) # m else e # Map_set k v m)"

definition Map_delete :: "'k \<Rightarrow> ('k, 'v) js_map \<Rightarrow> ('k, 'v) js_map" where
  "Map_delete k m = filter (\<lambda>e. fst e \<noteq> k) m"

definition Map_get :: "('k, 'v) js_map \<Rightarrow> 'k \<Rightarrow> 'v option" where
  "Map_get m k = map_of m k"

record route_state =
  routes :: "route list"
  routeMap :: "(string, route) js_map"

definition initialRouteState :: route_state where
  "initialRouteState = \<lparr>routes = [], routeMap = []\<rparr>"

text \<open>
  \<open>Array.prototype.sort\<close> is stable, and the comparator \<open>b.startTime - a.startTime\<close> orders
  by descending start time: a stable sort on the negated time value.
\<close>

definition sortRoutesByTime :: "route list \<Rightarrow> route list" where
  "sortRoutesByTime rs = sort_key (\<lambda>r. - route_startTime r) rs"

definition addRoute :: "route \<Rightarrow> route_state \<Rightarrow> route_state" where
  "addRoute r state =
     (let updatedRoutes = routes state @ [r];
          sortedRoutes = sortRoutesByTime updatedRoutes;
          newRouteMap = Map_set (route_id r) r (routeMap state)
      in state\<lparr>routes := sortedRoutes, routeMap := newRouteMap\<rparr>)"

definition getAllRoutes :: "route_state \<Rightarrow> route list" where
  "getAllRoutes state = routes state"

definition getRoutesByTitle :: "string \<Rightarrow> route_state \<Rightarrow> route list" where
  "getRoutesByTitle t state = filter (\<lambda>r. name r = t) (routes state)"

text \<open>\<open>deleteRouteByTitle\<close> returns its boolean and the state it leaves.\<close>

definition deleteRouteByTitle :: "string \<Rightarrow> route_state \<Rightarrow> bool \<times> route_state" where
  "deleteRouteByTitle t state =
     (let routesToDelete = filter (\<lambda>r. name r = t) (routes state) in
      if length routesToDelete = 0 then (False, state)
      else
        (let newRouteMap = fold (\<lambda>r m. Map_delete (route_id r) m) routesToDelete (routeMap state)
         in (True, state\<lparr>routes := filter (\<lambda>r. name r \<noteq> t) (routes state),
                          routeMap := newRouteMap\<rparr>)))"

definition getRouteCount :: "route_state \<Rightarrow> nat" where
  "getRouteCount state = length (routes state)"

section \<open>CSV export (services/exportService.ts)\<close>

definition newline :: char where
  "newline = CHR 0x0A"

definition dquote :: char where
  "dquote = CHR 0x22"

text \<open>\<open>escapeCsvValue\<close>: the test \<open>/[,"\n]/\<close> and the replacement of every quote by two.\<close>

definition escapeCsvValue :: "string \<Rightarrow> string" where
  "escapeCsvValue v =
     (if \<exists>c \<in> set v. c = CHR '','' \<or> c = dquote \<or> c = newline
      then [dquote] @ concat (map (\<lambda>c. if c = dquote then [dquote, dquote] else [c]) v) @ [dquote]
      else v)"

text \<open>
  \<open>x?.toString() || ''\<close>: \<open>null\<close> gives \<open>undefined\<close>, and \<open>undefined\<close> and the empty string
  both give the empty string.
\<close>

definition toString_or_empty :: "(jsnum \<Rightarrow> string) \<Rightarrow> jsnum option \<Rightarrow> string" where
  "toString_or_empty num_str x =
     (case x of None \<Rightarrow> [] | Some v \<Rightarrow> (if num_str v = [] then [] else num_str v))"

text \<open>
  The runtime's \<open>Number.prototype.toString\<close> and \<open>Date.prototype.toISOString\<close> are the
  arguments \<open>num_str\<close> and \<open>iso_str\<close>.
\<close>

definition formatCsvRow ::
  "(jsnum \<Rightarrow> string) \<Rightarrow> (jsdate \<Rightarrow> string) \<Rightarrow>
   string \<Rightarrow> jsnum \<Rightarrow> jsnum \<Rightarrow> jsdate \<Rightarrow> jsnum option \<Rightarrow> jsnum option \<Rightarrow> jsnum option \<Rightarrow> string" where
  "formatCsvRow num_str iso_str routeName lat lon ts acc spd hdg =
     array_join '',''
       [routeName, num_str lat, num_str lon, iso_str ts,
        toString_or_empty num_str acc, toString_or_empty num_str spd,
        toString_or_empty num_str hdg]"

definition csv_headers :: string where
  "csv_headers = ''Route,Latitude,Longitude,Timestamp,Accuracy,Speed,Heading'' @ [newline]"

text \<open>
  \<open>makeCSVData\<close>: the array \<open>csvRows\<close> holds \<open>headers\<close> (which ends in a newline) at index 0
  and then one row per point, route by route, in order; it is joined with newlines and
  a newline is appended.
\<close>

definition route_rows :: "(jsnum \<Rightarrow> string) \<Rightarrow> (jsdate \<Rightarrow> string) \<Rightarrow> route \<Rightarrow> string list" where
  "route_rows num_str iso_str r =
     (let escapedRouteName = escapeCsvValue (name r) in
      map (\<lambda>point.
             formatCsvRow num_str iso_str escapedRouteName (latitude point) (longitude point)
               (timestamp point) (Some (accuracy point)) (speed point) (heading point))
          (route_locationPoints r))"

definition makeCSVData :: "(jsnum \<Rightarrow> string) \<Rightarrow> (jsdate \<Rightarrow> string) \<Rightarrow> route list \<Rightarrow> string" where
  "makeCSVData num_str iso_str rs =
     (if length rs = 0 then csv_headers
      else
        (let csvRows = csv_headers # concat (map (route_rows num_str iso_str) rs)
         in array_join [newline] csvRows @ [newline]))"

section \<open>Persisted rows and route materialization (services/storageService.ts)\<close>

text \<open>
  A row of the table \<open>footprints\<close>, as the query returns it. The fields that share a name
  with a field of a sample carry the prefix \<open>row_\<close>. The column \<open>timestamp\<close> is text; the
  runtime's \<open>new Date(text)\<close> is the argument \<open>new_Date\<close> of the model, and a text it turns
  into an Invalid Date is outside the model, as a \<open>jsdate\<close> is a time value.
\<close>

record footprint =
  row_id :: int
  title :: string
  row_latitude :: jsnum
  row_longitude :: jsnum
  row_accuracy :: jsnum
  row_speed :: "jsnum option"
  direction :: "jsnum option"
  row_timestamp :: string

definition transformFootprintToLocationPoint :: "(string \<Rightarrow> jsdate) \<Rightarrow> footprint \<Rightarrow> location_point" where
  "transformFootprintToLocationPoint new_Date fp =
     \<lparr>latitude = row_latitude fp, longitude = row_longitude fp,
      timestamp = new_Date (row_timestamp fp), accuracy = row_accuracy fp,
      speed = row_speed fp, heading = direction fp\<rparr>"

text \<open>
  \<open>generateRouteId\<close>: \<open>title.replace(/\s+/g, '-').toLowerCase()\<close>, a hyphen and the id of the
  first row. Among the code units below 256 the class \<open>\s\<close> holds tab, line feed, vertical
  tab, form feed, carriage return, space and the no-break space, and \<open>toLowerCase\<close> moves
  \<open>A\<close> to \<open>Z\<close> and the accented capitals \<open>0xC0\<close> to \<open>0xDE\<close>, without the multiplication sign
  \<open>0xD7\<close>, up by 32 and keeps every other code unit.
\<close>

definition is_space :: "char \<Rightarrow> bool" where
  "is_space c =
     (c \<in> set [CHR 0x09, CHR 0x0A, CHR 0x0B, CHR 0x0C, CHR 0x0D, CHR 0x20, CHR 0xA0])"

function replace_spaces :: "string \<Rightarrow> string" where
  "replace_spaces [] = []"
| "replace_spaces (c # cs) =
     (if is_space c then CHR ''-'' # replace_spaces (dropWhile is_space cs)
      else c # replace_spaces cs)"
  by pat_completeness auto
termination
  by (relation "measure length") (auto simp: length_dropWhile_le less_Suc_eq_le)

definition toLowerCase_char :: "char \<Rightarrow> char" where
  "toLowerCase_char c =
     (let n = (of_char c :: nat) in
      if (65 \<le> n \<and> n \<le> 90) \<or> (192 \<le> n \<and> n \<le> 222 \<and> n \<noteq> 215) then char_of (n + 32)
      else c)"

definition toLowerCase :: "string \<Rightarrow> string" where
  "toLowerCase s = map toLowerCase_char s"

definition generateRouteId :: "string \<Rightarrow> int \<Rightarrow> string" where
  "generateRouteId t firstFootprintId =
     toLowerCase (replace_spaces t) @ ''-'' @ int_str firstFootprintId"

text \<open>
  \<open>grouped\<close> is an object literal \<open>{}\<close>: its own properties, in creation order, and behind
  them the properties it inherits from \<open>Object.prototype\<close>, which a read \<open>grouped[key]\<close>
  finds when the object has no own property of that name. Each inherited value is a
  function or an object: truthy, and without a method \<open>push\<close>. An assignment
  \<open>grouped[key] = v\<close> replaces the value of an own property in place and creates a new
  property last, which is what \<open>Map_set\<close> does on the list of entries.
\<close>

type_synonym 'v js_object = "(string \<times> 'v) list"

definition Object_prototype_keys :: "string list" where
  "Object_prototype_keys =
     [''constructor'', ''__defineGetter__'', ''__defineSetter__'', ''hasOwnProperty'',
      ''__lookupGetter__'', ''__lookupSetter__'', ''isPrototypeOf'', ''propertyIsEnumerable'',
      ''toString'', ''valueOf'', ''__proto__'', ''toLocaleString'']"

text \<open>
  The body of the grouping loop: \<open>if (!grouped[t]) grouped[t] = []\<close> and then
  \<open>grouped[t].push(footprint)\<close>, which throws a \<open>TypeError\<close> when \<open>grouped[t]\<close> is an
  inherited value.
\<close>

definition group_step :: "footprint \<Rightarrow> footprint list js_object \<Rightarrow> js_error + footprint list js_object" where
  "group_step fp grouped =
     (let t = title fp;
          truthy = (map_of grouped t \<noteq> None \<or> t \<in> set Object_prototype_keys);
          grouped1 = (if \<not> truthy then Map_set t [] grouped else grouped)
      in case map_of grouped1 t of
           Some g \<Rightarrow> Inr (Map_set t (g @ [fp]) grouped1)
         | None \<Rightarrow> Inl TypeError)"

fun group_loop :: "footprint list \<Rightarrow> footprint list js_object \<Rightarrow> js_error + footprint list js_object" where
  "group_loop [] grouped = Inr grouped"
| "group_loop (fp # fps) grouped =
     (case group_step fp grouped of Inl e \<Rightarrow> Inl e | Inr grouped' \<Rightarrow> group_loop fps grouped')"

text \<open>
  \<open>Object.entries\<close> lists the own properties whose name is an array index (the canonical
  decimal of a number below \<open>2^32 - 1\<close>) first, in ascending numeric order, and then the
  others in creation order.
\<close>

definition is_digit :: "char \<Rightarrow> bool" where
  "is_digit c = (48 \<le> (of_char c :: nat) \<and> (of_char c :: nat) \<le> 57)"

definition str_nat :: "string \<Rightarrow> nat" where
  "str_nat s = foldl (\<lambda>a c. 10 * a + ((of_char c :: nat) - 48)) 0 s"

definition is_array_index :: "string \<Rightarrow> bool" where
  "is_array_index s =
     (s \<noteq> [] \<and> list_all is_digit s \<and> (length s = 1 \<or> hd s \<noteq> CHR ''0'') \<and>
      str_nat s < 4294967295)"

definition Object_entries :: "'v js_object \<Rightarrow> (string \<times> 'v) list" where
  "Object_entries obj =
     sort_key (\<lambda>e. str_nat (fst e)) (filter (\<lambda>e. is_array_index (fst e)) obj) @
     filter (\<lambda>e. \<not> is_array_index (fst e)) obj"

text \<open>
  \<open>Math.min\<close> and \<open>Math.max\<close> of the spread time values. With no argument they are
  \<open>Infinity\<close> and \<open>-Infinity\<close>, which are no time values; the functions are applied to the
  time values of a group that holds a first row.
\<close>

fun Math_min :: "int list \<Rightarrow> int" where
  "Math_min (x # xs) = fold min xs x"

fun Math_max :: "int list \<Rightarrow> int" where
  "Math_max (x # xs) = fold max xs x"

text \<open>
  One entry of \<open>grouped\<close> to a route. \<open>titleFootprints[0].id\<close> on an empty group would
  read a property of \<open>undefined\<close>.
\<close>

fun group_to_route :: "(string \<Rightarrow> jsdate) \<Rightarrow> string \<times> footprint list \<Rightarrow> js_error + route" where
  "group_to_route new_Date (t, []) = Inl TypeError"
| "group_to_route new_Date (t, fp # fps) =
     (let titleFootprints = fp # fps;
          locationPoints = map (transformFootprintToLocationPoint new_Date) titleFootprints;
          timestamps = map timestamp locationPoints
      in Inr \<lparr>route_id = generateRouteId t (row_id fp),
              name = t,
              route_locationPoints = locationPoints,
              route_startTime = Math_min timestamps,
              endTime = Math_max timestamps,
              pointCount = int (length locationPoints)\<rparr>)"

text \<open>\<open>Array.prototype.map\<close> with a callback that may throw.\<close>

fun map_throwing :: "('a \<Rightarrow> js_error + 'b) \<Rightarrow> 'a list \<Rightarrow> js_error + 'b list" where
  "map_throwing f [] = Inr []"
| "map_throwing f (x # xs) =
     (case f x of
        Inl e \<Rightarrow> Inl e
      | Inr y \<Rightarrow> (case map_throwing f xs of Inl e \<Rightarrow> Inl e | Inr ys \<Rightarrow> Inr (y # ys)))"

definition groupFootprintsByTitle :: "(string \<Rightarrow> jsdate) \<Rightarrow> footprint list \<Rightarrow> js_error + route list" where
  "groupFootprintsByTitle new_Date footprints =
     (case group_loop footprints [] of
        Inl e \<Rightarrow> Inl e
      | Inr grouped \<Rightarrow> map_throwing (group_to_route new_Date) (Object_entries grouped))"

text \<open>
  \<open>fetchFootprints\<close>. The database handle is \<open>null\<close> before \<open>initialize\<close>; otherwise the
  model takes the rows the query returns. The \<open>catch\<close> rethrows.
\<close>

definition fetchFootprints :: "(string \<Rightarrow> jsdate) \<Rightarrow> footprint list option \<Rightarrow> js_error + route list" where
  "fetchFootprints new_Date database =
     (case database of
        None \<Rightarrow> Inl (Error ''Database not initialized'')
      | Some footprints \<Rightarrow>
          if length footprints = 0 then Inr []
          else groupFootprintsByTitle new_Date footprints)"

section \<open>Predicates of the specification\<close>

text \<open>
  The five conditions of sample validation, in the words of the specification: latitude
  in range, longitude in range, accuracy non-negative, speed null or non-negative, heading
  null or in \<open>[0, 360]\<close>. A \<open>NaN\<close> satisfies none of them, as every comparison with it is false.
\<close>

definition latitude_in_range :: "location_point \<Rightarrow> bool" where
  "latitude_in_range l = js_le (Math_abs (latitude l)) (Fin 90)"

definition longitude_in_range :: "location_point \<Rightarrow> bool" where
  "longitude_in_range l = js_le (Math_abs (longitude l)) (Fin 180)"

definition accuracy_non_negative :: "location_point \<Rightarrow> bool" where
  "accuracy_non_negative l = js_le (Fin 0) (accuracy l)"

definition speed_null_or_non_negative :: "location_point \<Rightarrow> bool" where
  "speed_null_or_non_negative l = (case speed l of None \<Rightarrow> True | Some v \<Rightarrow> js_le (Fin 0) v)"

definition heading_null_or_in_range :: "location_point \<Rightarrow> bool" where
  "heading_null_or_in_range l =
     (case heading l of None \<Rightarrow> True | Some h \<Rightarrow> js_le (Fin 0) h \<and> js_le h (Fin 360))"

text \<open>
  The catalog invariant: the keys of the mapping are distinct, every entry is filed under
  the id of its route, and the routes of the mapping are, with multiplicity, the routes of
  the sequence. So each route of the sequence has exactly one entry and each entry exactly
  one place in the sequence.
\<close>

definition catalog_consistent :: "route_state \<Rightarrow> bool" where
  "catalog_consistent s =
     (distinct (map fst (routeMap s)) \<and>
      (\<forall>e \<in> set (routeMap s). fst e = route_id (snd e)) \<and>
      mset (map snd (routeMap s)) = mset (routes s))"

text \<open>The rows of one title, in the order of the query result.\<close>

definition rows_of :: "string \<Rightarrow> footprint list \<Rightarrow> footprint list" where
  "rows_of t fps = filter (\<lambda>f. title f = t) fps"

section \<open>Concrete inputs\<close>

text \<open>
  A number-to-string conversion for the concrete inputs. On \<open>NaN\<close>, the infinities and the
  whole numbers of magnitude below \<open>10^21\<close> it gives the text of \<open>Number.prototype.toString\<close>;
  it is applied to such numbers only.
\<close>

definition num_str_whole :: "jsnum \<Rightarrow> string" where
  "num_str_whole v =
     (case v of NaN \<Rightarrow> ''NaN'' | PosInf \<Rightarrow> ''Infinity'' | NegInf \<Rightarrow> ''-Infinity''
      | Fin x \<Rightarrow> int_str \<lfloor>x\<rfloor>)"

definition sample_point :: location_point where
  "sample_point =
     \<lparr>latitude = Fin 35, longitude = Fin 139, timestamp = 1000, accuracy = Fin 5,
      speed = Some (Fin 2), heading = Some (Fin 45)\<rparr>"

definition null_motion_point :: location_point where
  "null_motion_point = sample_point\<lparr>speed := None, heading := None\<rparr>"

definition collecting_one :: footprint_state where
  "collecting_one =
     \<lparr>isCollecting = True, startTime = Some 1000, locationPoints = [sample_point],
      currentLocation = Some sample_point, currentSpeed = Some (Fin 2)\<rparr>"

definition one_point_route :: route where
  "one_point_route =
     \<lparr>route_id = ''morning-walk-1'', name = ''Morning Walk'',
      route_locationPoints = [null_motion_point],
      route_startTime = 1000, endTime = 1000, pointCount = 1\<rparr>"

definition evening_route :: route where
  "evening_route =
     \<lparr>route_id = ''evening-jog-2'', name = ''Evening Jog'',
      route_locationPoints = [sample_point],
      route_startTime = 2000, endTime = 2000, pointCount = 1\<rparr>"

definition one_route_catalog :: route_state where
  "one_route_catalog = addRoute one_point_route initialRouteState"

definition walk_row :: "int \<Rightarrow> string \<Rightarrow> string \<Rightarrow> footprint" where
  "walk_row i t ts =
     \<lparr>row_id = i, title = t, row_latitude = Fin 35, row_longitude = Fin 139,
      row_accuracy = Fin 5, row_speed = None, direction = None, row_timestamp = ts\<rparr>"

definition constructor_row :: footprint where
  "constructor_row =
     \<lparr>row_id = 1, title = ''constructor'', row_latitude = Fin 35, row_longitude = Fin 139,
      row_accuracy = Fin 5, row_speed = None, direction = None,
      row_timestamp = ''2022-01-01T10:00:00.000Z''\<rparr>"

section \<open>Session properties\<close>

text \<open>
  C1, as stated, fails: \<open>startCollecting\<close> on a collecting session that holds one sample
  keeps that sample, it does not clear the list.
\<close>

theorem startCollecting_keeps_samples_counterexample:
  "isCollecting collecting_one \<and> locationPoints collecting_one \<noteq> [] \<and>
   locationPoints (startCollecting 2000 collecting_one) = [sample_point] \<and>
   locationPoints (startCollecting 2000 collecting_one) \<noteq> []"
  by (simp add: startCollecting_def collecting_one_def)

text \<open>
  C1, amended: for every session state, \<open>startCollecting\<close> yields a collecting state whose
  \<open>startTime\<close> is the injected clock value and leaves the samples, the current sample and
  the current speed as they were; so a repeated start re-stamps \<open>startTime\<close>, never
  duplicates a sample, and the samples are empty after it exactly when they were empty
  before.
\<close>

theorem startCollecting_restamps_only:
  "isCollecting (startCollecting now state) = True \<and>
   startTime (startCollecting now state) = Some now \<and>
   locationPoints (startCollecting now state) = locationPoints state \<and>
   currentLocation (startCollecting now state) = currentLocation state \<and>
   currentSpeed (startCollecting now state) = currentSpeed state \<and>
   (locationPoints (startCollecting now state) = [] \<longleftrightarrow> locationPoints state = [])"
  by (simp add: startCollecting_def)

text \<open>
  C5: \<open>addLocationPoint\<close> returns an idle state unchanged; on a collecting state it
  appends the sample after all earlier samples, makes it the current sample and copies
  its \<open>speed\<close> field into \<open>currentSpeed\<close>, touching nothing else.
\<close>

theorem addLocationPoint_guard_and_append:
  "(\<not> isCollecting state \<longrightarrow> addLocationPoint location state = state) \<and>
   (isCollecting state \<longrightarrow>
      locationPoints (addLocationPoint location state) = locationPoints state @ [location] \<and>
      currentLocation (addLocationPoint location state) = Some location \<and>
      currentSpeed (addLocationPoint location state) = speed location \<and>
      isCollecting (addLocationPoint location state) \<and>
      startTime (addLocationPoint location state) = startTime state)"
  by (simp add: addLocationPoint_def)

theorem addLocationPoint_guard_and_append_witness:
  "\<not> isCollecting initialState \<and> addLocationPoint sample_point initialState = initialState \<and>
   isCollecting collecting_one \<and>
   locationPoints (addLocationPoint sample_point collecting_one) = [sample_point, sample_point] \<and>
   currentLocation (addLocationPoint sample_point collecting_one) = Some sample_point \<and>
   currentSpeed (addLocationPoint sample_point collecting_one) = Some (Fin 2)"
  using addLocationPoint_guard_and_append [of initialState sample_point]
    addLocationPoint_guard_and_append [of collecting_one sample_point]
  by (simp add: initialState_def collecting_one_def sample_point_def)

text \<open>
  C6: from every session state, \<open>stopCollecting\<close> and \<open>reset\<close> both give the initial
  state (not collecting, no start time, no samples, no current sample, no current
  speed), so the two agree everywhere.
\<close>

theorem stopCollecting_reset_initial:
  "stopCollecting state = reset state \<and>
   stopCollecting state = initialState \<and>
   isCollecting (stopCollecting state) = False \<and>
   startTime (stopCollecting state) = None \<and>
   locationPoints (stopCollecting state) = [] \<and>
   currentLocation (stopCollecting state) = None \<and>
   currentSpeed (stopCollecting state) = None"
  by (simp add: stopCollecting_def reset_def initialState_def)

section \<open>Validation properties\<close>

lemma validateGPSAccuracy_iff:
  "validateGPSAccuracy v \<longleftrightarrow>
     v = JString ''best'' \<or> v = JString ''nearest-ten-meters'' \<or> v = JString ''hundred-meters'' \<or>
     v = JString ''kilometer'' \<or> v = JString ''three-kilometers''"
  by (auto simp: validateGPSAccuracy_def VALID_GPS_ACCURACIES_def Object_values_def GPS_ACCURACY_def)

lemma validateGPSAccuracyDetailed_accepted:
  "validateGPSAccuracy v \<Longrightarrow>
   validateGPSAccuracyDetailed ns v = Inr \<lparr>isValid = True, error = None\<rparr>"
  by (simp add: validateGPSAccuracyDetailed_def)

lemma validateGPSAccuracyDetailed_symbol:
  "validateGPSAccuracyDetailed ns JSymbol = Inl TypeError"
  by (simp add: validateGPSAccuracyDetailed_def validateGPSAccuracy_iff)

text \<open>
  C3 at the tier \<open>best-for-navigation\<close>: the validator rejects it, with the error kind for
  an unknown accuracy level and a message that lists the five tiers it knows.
\<close>

theorem validateGPSAccuracy_rejects_best_for_navigation:
  "validateGPSAccuracy (JString ''best-for-navigation'') = False \<and>
   validateGPSAccuracyDetailed ns (JString ''best-for-navigation'') =
     Inr \<lparr>isValid = False,
          error = Some
            \<lparr>code = INVALID_GPS_ACCURACY,
             message = ''Invalid GPS accuracy: best-for-navigation. Must be one of: best, nearest-ten-meters, hundred-meters, kilometer, three-kilometers.'',
             field = ''accuracy''\<rparr>\<rparr>"
  by (simp add: validateGPSAccuracyDetailed_def validateGPSAccuracy_iff Object_values_def
      GPS_ACCURACY_def)

lemma js_le_not_lt: "js_le a b \<Longrightarrow> \<not> js_lt b a"
  by (cases a; cases b) auto

lemma js_lt_iff_not_le: "a \<noteq> NaN \<Longrightarrow> b \<noteq> NaN \<Longrightarrow> js_lt a b \<longleftrightarrow> \<not> js_le b a"
  by (cases a; cases b) auto

lemmas field_conditions =
  latitude_in_range_def longitude_in_range_def accuracy_non_negative_def
  speed_null_or_non_negative_def heading_null_or_in_range_def
  isValidLatitude_def isValidLongitude_def MAX_LATITUDE_def MAX_LONGITUDE_def js_gt_def

lemma validate_latitude:
  "\<not> latitude_in_range l \<Longrightarrow>
   validateLocationPointDetailed ns l =
     \<lparr>isValid = False,
      error = Some
        \<lparr>code = LATITUDE_OUT_OF_RANGE,
         message = ''Invalid latitude: '' @ ns (latitude l) @ ''. Must be between -90 and 90.'',
         field = ''latitude''\<rparr>\<rparr>"
  by (simp add: validateLocationPointDetailed_def field_conditions)

lemma validate_longitude:
  "latitude_in_range l \<Longrightarrow> \<not> longitude_in_range l \<Longrightarrow>
   validateLocationPointDetailed ns l =
     \<lparr>isValid = False,
      error = Some
        \<lparr>code = LONGITUDE_OUT_OF_RANGE,
         message = ''Invalid longitude: '' @ ns (longitude l) @ ''. Must be between -180 and 180.'',
         field = ''longitude''\<rparr>\<rparr>"
  by (simp add: validateLocationPointDetailed_def field_conditions)

lemma validate_accuracy:
  "latitude_in_range l \<Longrightarrow> longitude_in_range l \<Longrightarrow>
   \<not> accuracy_non_negative l \<Longrightarrow> accuracy l \<noteq> NaN \<Longrightarrow>
   validateLocationPointDetailed ns l =
     \<lparr>isValid = False,
      error = Some
        \<lparr>code = NEGATIVE_ACCURACY,
         message = ''Invalid accuracy: '' @ ns (accuracy l) @ ''. Must be non-negative.'',
         field = ''accuracy''\<rparr>\<rparr>"
  by (simp add: validateLocationPointDetailed_def field_conditions js_lt_iff_not_le)

lemma accuracy_passes:
  "accuracy_non_negative l \<or> accuracy l = NaN \<Longrightarrow> \<not> js_lt (accuracy l) (Fin 0)"
  by (auto simp: accuracy_non_negative_def js_le_not_lt)

lemma speed_passes:
  "speed_null_or_non_negative l \<or> speed l = Some NaN \<Longrightarrow>
   \<not> (speed l \<noteq> None \<and> js_lt (the (speed l)) (Fin 0))"
  by (auto simp: speed_null_or_non_negative_def js_le_not_lt split: option.splits)

lemma heading_passes:
  "heading_null_or_in_range l \<or> heading l = Some NaN \<Longrightarrow>
   \<not> (heading l \<noteq> None \<and>
      (js_lt (the (heading l)) (Fin 0) \<or> js_gt (the (heading l)) (Fin 360)))"
  by (auto simp: heading_null_or_in_range_def js_gt_def js_le_not_lt split: option.splits)

lemma validate_speed:
  assumes "latitude_in_range l" "longitude_in_range l"
    and "accuracy_non_negative l \<or> accuracy l = NaN"
    and "speed l = Some v" "v \<noteq> NaN" "\<not> speed_null_or_non_negative l"
  shows "validateLocationPointDetailed ns l =
     \<lparr>isValid = False,
      error = Some
        \<lparr>code = NEGATIVE_SPEED,
         message = ''Invalid speed: '' @ ns v @ ''. Must be non-negative or null.'',
         field = ''speed''\<rparr>\<rparr>"
proof -
  have "js_lt v (Fin 0)"
    using assms(4-6) by (simp add: speed_null_or_non_negative_def js_lt_iff_not_le)
  then show ?thesis
    using assms(1,2,4) accuracy_passes [OF assms(3)]
    by (simp add: validateLocationPointDetailed_def field_conditions)
qed

lemma validate_heading:
  assumes "latitude_in_range l" "longitude_in_range l"
    and "accuracy_non_negative l \<or> accuracy l = NaN"
    and "speed_null_or_non_negative l \<or> speed l = Some NaN"
    and "heading l = Some h" "h \<noteq> NaN" "\<not> heading_null_or_in_range l"
  shows "validateLocationPointDetailed ns l =
     \<lparr>isValid = False,
      error = Some
        \<lparr>code = INVALID_HEADING,
         message = ''Invalid heading: '' @ ns h @ ''. Must be between 0 and 360 or null.'',
         field = ''heading''\<rparr>\<rparr>"
proof -
  have "js_lt h (Fin 0) \<or> js_gt h (Fin 360)"
    using assms(5-7) by (auto simp: heading_null_or_in_range_def js_gt_def js_lt_iff_not_le)
  then show ?thesis
    using assms(1,2,5) accuracy_passes [OF assms(3)] speed_passes [OF assms(4)]
    by (simp add: validateLocationPointDetailed_def field_conditions)
qed

lemma validate_all_pass:
  assumes "latitude_in_range l" "longitude_in_range l"
    and "accuracy_non_negative l \<or> accuracy l = NaN"
    and "speed_null_or_non_negative l \<or> speed l = Some NaN"
    and "heading_null_or_in_range l \<or> heading l = Some NaN"
  shows "validateLocationPointDetailed ns l = \<lparr>isValid = True, error = None\<rparr>"
  using assms(1,2) accuracy_passes [OF assms(3)] speed_passes [OF assms(4)]
    heading_passes [OF assms(5)]
  by (simp add: validateLocationPointDetailed_def field_conditions)

lemma num_str_whole_values:
  "num_str_whole (Fin 91) = ''91''"
  "num_str_whole (Fin (- 181)) = ''-181''"
  "num_str_whole (Fin (- 1)) = ''-1''"
  "num_str_whole (Fin (- 2)) = ''-2''"
  "num_str_whole (Fin 400) = ''400''"
  by code_simp+

text \<open>
  C9, as stated, fails: a sample whose accuracy is \<open>NaN\<close> (not non-negative) and whose speed
  is \<open>-2\<close> has two invalid fields, accuracy the earlier one, and the validator reports the
  speed.
\<close>

theorem nan_accuracy_reports_later_field_counterexample:
  "latitude_in_range (sample_point\<lparr>accuracy := NaN, speed := Some (Fin (- 2))\<rparr>) \<and>
   longitude_in_range (sample_point\<lparr>accuracy := NaN, speed := Some (Fin (- 2))\<rparr>) \<and>
   \<not> accuracy_non_negative (sample_point\<lparr>accuracy := NaN, speed := Some (Fin (- 2))\<rparr>) \<and>
   \<not> speed_null_or_non_negative (sample_point\<lparr>accuracy := NaN, speed := Some (Fin (- 2))\<rparr>) \<and>
   validateLocationPointDetailed num_str_whole
       (sample_point\<lparr>accuracy := NaN, speed := Some (Fin (- 2))\<rparr>) =
     \<lparr>isValid = False,
      error = Some
        \<lparr>code = NEGATIVE_SPEED,
         message = ''Invalid speed: -2. Must be non-negative or null.'',
         field = ''speed''\<rparr>\<rparr>"
  by (simp add: validateLocationPointDetailed_def field_conditions sample_point_def
      num_str_whole_values)

text \<open>
  C9, amended: the five checks run in the order latitude, longitude, accuracy, speed,
  heading, and a \<open>NaN\<close> accuracy, speed or heading fails no check. The result is decided by
  the first field, in that order, that violates its condition and (for accuracy, speed and
  heading) is not \<open>NaN\<close>, whatever the later fields hold: \<open>isValid\<close> is false and the error
  has that field's kind, carries that field's name, and its message embeds the rendering
  of the offending value. A sample in which every field satisfies its condition or (for
  accuracy, speed and heading) is \<open>NaN\<close> is valid and carries no error.
\<close>

theorem validateLocationPointDetailed_first_failure:
  "(\<not> latitude_in_range l \<longrightarrow>
      validateLocationPointDetailed ns l =
        \<lparr>isValid = False,
         error = Some
           \<lparr>code = LATITUDE_OUT_OF_RANGE,
            message = ''Invalid latitude: '' @ ns (latitude l) @ ''. Must be between -90 and 90.'',
            field = ''latitude''\<rparr>\<rparr>) \<and>
   (latitude_in_range l \<and> \<not> longitude_in_range l \<longrightarrow>
      validateLocationPointDetailed ns l =
        \<lparr>isValid = False,
         error = Some
           \<lparr>code = LONGITUDE_OUT_OF_RANGE,
            message = ''Invalid longitude: '' @ ns (longitude l) @
              ''. Must be between -180 and 180.'',
            field = ''longitude''\<rparr>\<rparr>) \<and>
   (latitude_in_range l \<and> longitude_in_range l \<and>
    \<not> accuracy_non_negative l \<and> accuracy l \<noteq> NaN \<longrightarrow>
      validateLocationPointDetailed ns l =
        \<lparr>isValid = False,
         error = Some
           \<lparr>code = NEGATIVE_ACCURACY,
            message = ''Invalid accuracy: '' @ ns (accuracy l) @ ''. Must be non-negative.'',
            field = ''accuracy''\<rparr>\<rparr>) \<and>
   (latitude_in_range l \<and> longitude_in_range l \<and>
    (accuracy_non_negative l \<or> accuracy l = NaN) \<and>
    speed l = Some v \<and> v \<noteq> NaN \<and> \<not> speed_null_or_non_negative l \<longrightarrow>
      validateLocationPointDetailed ns l =
        \<lparr>isValid = False,
         error = Some
           \<lparr>code = NEGATIVE_SPEED,
            message = ''Invalid speed: '' @ ns v @ ''. Must be non-negative or null.'',
            field = ''speed''\<rparr>\<rparr>) \<and>
   (latitude_in_range l \<and> longitude_in_range l \<and>
    (accuracy_non_negative l \<or> accuracy l = NaN) \<and>
    (speed_null_or_non_negative l \<or> speed l = Some NaN) \<and>
    heading l = Some h \<and> h \<noteq> NaN \<and> \<not> heading_null_or_in_range l \<longrightarrow>
      validateLocationPointDetailed ns l =
        \<lparr>isValid = False,
         error = Some
           \<lparr>code = INVALID_HEADING,
            message = ''Invalid heading: '' @ ns h @ ''. Must be between 0 and 360 or null.'',
            field = ''heading''\<rparr>\<rparr>) \<and>
   (latitude_in_range l \<and> longitude_in_range l \<and>
    (accuracy_non_negative l \<or> accuracy l = NaN) \<and>
    (speed_null_or_non_negative l \<or> speed l = Some NaN) \<and>
    (heading_null_or_in_range l \<or> heading l = Some NaN) \<longrightarrow>
      validateLocationPointDetailed ns l = \<lparr>isValid = True, error = None\<rparr>)"
  using validate_latitude [of l ns] validate_longitude [of l ns] validate_accuracy [of l ns]
    validate_speed [of l v ns] validate_heading [of l h ns] validate_all_pass [of l ns]
  by blast

theorem validateLocationPointDetailed_first_failure_witness:
  "\<not> latitude_in_range (sample_point\<lparr>latitude := Fin 91, longitude := NaN, accuracy := Fin (- 1)\<rparr>) \<and>
   validateLocationPointDetailed num_str_whole
       (sample_point\<lparr>latitude := Fin 91, longitude := NaN, accuracy := Fin (- 1)\<rparr>) =
     \<lparr>isValid = False,
      error = Some
        \<lparr>code = LATITUDE_OUT_OF_RANGE,
         message = ''Invalid latitude: 91. Must be between -90 and 90.'',
         field = ''latitude''\<rparr>\<rparr> \<and>
   \<not> longitude_in_range
       (sample_point\<lparr>longitude := Fin (- 181), accuracy := Fin (- 1), speed := Some (Fin (- 2))\<rparr>) \<and>
   validateLocationPointDetailed num_str_whole
       (sample_point\<lparr>longitude := Fin (- 181), accuracy := Fin (- 1), speed := Some (Fin (- 2))\<rparr>) =
     \<lparr>isValid = False,
      error = Some
        \<lparr>code = LONGITUDE_OUT_OF_RANGE,
         message = ''Invalid longitude: -181. Must be between -180 and 180.'',
         field = ''longitude''\<rparr>\<rparr> \<and>
   \<not> accuracy_non_negative
       (sample_point\<lparr>accuracy := Fin (- 1), speed := Some (Fin (- 2)), heading := Some (Fin 400)\<rparr>) \<and>
   validateLocationPointDetailed num_str_whole
       (sample_point\<lparr>accuracy := Fin (- 1), speed := Some (Fin (- 2)), heading := Some (Fin 400)\<rparr>) =
     \<lparr>isValid = False,
      error = Some
        \<lparr>code = NEGATIVE_ACCURACY,
         message = ''Invalid accuracy: -1. Must be non-negative.'',
         field = ''accuracy''\<rparr>\<rparr> \<and>
   \<not> speed_null_or_non_negative
       (sample_point\<lparr>speed := Some (Fin (- 2)), heading := Some (Fin 400)\<rparr>) \<and>
   validateLocationPointDetailed num_str_whole
       (sample_point\<lparr>speed := Some (Fin (- 2)), heading := Some (Fin 400)\<rparr>) =
     \<lparr>isValid = False,
      error = Some
        \<lparr>code = NEGATIVE_SPEED,
         message = ''Invalid speed: -2. Must be non-negative or null.'',
         field = ''speed''\<rparr>\<rparr> \<and>
   \<not> heading_null_or_in_range (sample_point\<lparr>accuracy := NaN, heading := Some (Fin 400)\<rparr>) \<and>
   validateLocationPointDetailed num_str_whole
       (sample_point\<lparr>accuracy := NaN, heading := Some (Fin 400)\<rparr>) =
     \<lparr>isValid = False,
      error = Some
        \<lparr>code = INVALID_HEADING,
         message = ''Invalid heading: 400. Must be between 0 and 360 or null.'',
         field = ''heading''\<rparr>\<rparr> \<and>
   validateLocationPointDetailed num_str_whole sample_point = \<lparr>isValid = True, error = None\<rparr> \<and>
   validateLocationPointDetailed num_str_whole (sample_point\<lparr>speed := Some NaN, heading := None\<rparr>) =
     \<lparr>isValid = True, error = None\<rparr>"
proof -
  let ?a = "sample_point\<lparr>latitude := Fin 91, longitude := NaN, accuracy := Fin (- 1)\<rparr>"
  let ?b = "sample_point\<lparr>longitude := Fin (- 181), accuracy := Fin (- 1), speed := Some (Fin (- 2))\<rparr>"
  let ?c = "sample_point\<lparr>accuracy := Fin (- 1), speed := Some (Fin (- 2)), heading := Some (Fin 400)\<rparr>"
  let ?d = "sample_point\<lparr>speed := Some (Fin (- 2)), heading := Some (Fin 400)\<rparr>"
  let ?e = "sample_point\<lparr>accuracy := NaN, heading := Some (Fin 400)\<rparr>"
  let ?g = "sample_point\<lparr>speed := Some NaN, heading := None\<rparr>"
  have a: "\<not> latitude_in_range ?a"
    by (simp add: field_conditions sample_point_def)
  have b: "latitude_in_range ?b \<and> \<not> longitude_in_range ?b"
    by (simp add: field_conditions sample_point_def)
  have c: "latitude_in_range ?c \<and> longitude_in_range ?c \<and> \<not> accuracy_non_negative ?c \<and>
           accuracy ?c \<noteq> NaN"
    by (simp add: field_conditions sample_point_def)
  have d: "latitude_in_range ?d \<and> longitude_in_range ?d \<and>
           (accuracy_non_negative ?d \<or> accuracy ?d = NaN) \<and>
           speed ?d = Some (Fin (- 2)) \<and> Fin (- 2) \<noteq> NaN \<and> \<not> speed_null_or_non_negative ?d"
    by (simp add: field_conditions sample_point_def)
  have e: "latitude_in_range ?e \<and> longitude_in_range ?e \<and>
           (accuracy_non_negative ?e \<or> accuracy ?e = NaN) \<and>
           (speed_null_or_non_negative ?e \<or> speed ?e = Some NaN) \<and>
           heading ?e = Some (Fin 400) \<and> Fin 400 \<noteq> NaN \<and> \<not> heading_null_or_in_range ?e"
    by (simp add: field_conditions sample_point_def)
  have f: "latitude_in_range sample_point \<and> longitude_in_range sample_point \<and>
           (accuracy_non_negative sample_point \<or> accuracy sample_point = NaN) \<and>
           (speed_null_or_non_negative sample_point \<or> speed sample_point = Some NaN) \<and>
           (heading_null_or_in_range sample_point \<or> heading sample_point = Some NaN)"
    by (simp add: field_conditions sample_point_def)
  have g: "latitude_in_range ?g \<and> longitude_in_range ?g \<and>
           (accuracy_non_negative ?g \<or> accuracy ?g = NaN) \<and>
           (speed_null_or_non_negative ?g \<or> speed ?g = Some NaN) \<and>
           (heading_null_or_in_range ?g \<or> heading ?g = Some NaN)"
    by (simp add: field_conditions sample_point_def)
  have "validateLocationPointDetailed num_str_whole ?a =
      \<lparr>isValid = False,
       error = Some
         \<lparr>code = LATITUDE_OUT_OF_RANGE,
          message = ''Invalid latitude: '' @ num_str_whole (latitude ?a) @ ''. Must be between -90 and 90.'',
          field = ''latitude''\<rparr>\<rparr>"
    using validateLocationPointDetailed_first_failure [of ?a num_str_whole] a by blast
  then have ra: "validateLocationPointDetailed num_str_whole ?a =
      \<lparr>isValid = False,
       error = Some
         \<lparr>code = LATITUDE_OUT_OF_RANGE,
          message = ''Invalid latitude: 91. Must be between -90 and 90.'',
          field = ''latitude''\<rparr>\<rparr>"
    by (simp add: num_str_whole_values)
  have "validateLocationPointDetailed num_str_whole ?b =
      \<lparr>isValid = False,
       error = Some
         \<lparr>code = LONGITUDE_OUT_OF_RANGE,
          message = ''Invalid longitude: '' @ num_str_whole (longitude ?b) @ ''. Must be between -180 and 180.'',
          field = ''longitude''\<rparr>\<rparr>"
    using validateLocationPointDetailed_first_failure [of ?b num_str_whole] b by blast
  then have rb: "validateLocationPointDetailed num_str_whole ?b =
      \<lparr>isValid = False,
       error = Some
         \<lparr>code = LONGITUDE_OUT_OF_RANGE,
          message = ''Invalid longitude: -181. Must be between -180 and 180.'',
          field = ''longitude''\<rparr>\<rparr>"
    by (simp add: num_str_whole_values)
  have "validateLocationPointDetailed num_str_whole ?c =
      \<lparr>isValid = False,
       error = Some
         \<lparr>code = NEGATIVE_ACCURACY,
          message = ''Invalid accuracy: '' @ num_str_whole (accuracy ?c) @ ''. Must be non-negative.'',
          field = ''accuracy''\<rparr>\<rparr>"
    using validateLocationPointDetailed_first_failure [of ?c num_str_whole] c by blast
  then have rc: "validateLocationPointDetailed num_str_whole ?c =
      \<lparr>isValid = False,
       error = Some
         \<lparr>code = NEGATIVE_ACCURACY,
          message = ''Invalid accuracy: -1. Must be non-negative.'',
          field = ''accuracy''\<rparr>\<rparr>"
    by (simp add: num_str_whole_values)
  have "validateLocationPointDetailed num_str_whole ?d =
      \<lparr>isValid = False,
       error = Some
         \<lparr>code = NEGATIVE_SPEED,
          message = ''Invalid speed: '' @ num_str_whole (Fin (- 2)) @ ''. Must be non-negative or null.'',
          field = ''speed''\<rparr>\<rparr>"
    using validateLocationPointDetailed_first_failure [of ?d num_str_whole "Fin (- 2)"] d by blast
  then have rd: "validateLocationPointDetailed num_str_whole ?d =
      \<lparr>isValid = False,
       error = Some
         \<lparr>code = NEGATIVE_SPEED,
          message = ''Invalid speed: -2. Must be non-negative or null.'',
          field = ''speed''\<rparr>\<rparr>"
    by (simp add: num_str_whole_values)
  have "validateLocationPointDetailed num_str_whole ?e =
      \<lparr>isValid = False,
       error = Some
         \<lparr>code = INVALID_HEADING,
          message = ''Invalid heading: '' @ num_str_whole (Fin 400) @ ''. Must be between 0 and 360 or null.'',
          field = ''heading''\<rparr>\<rparr>"
    using validateLocationPointDetailed_first_failure [of ?e num_str_whole _ "Fin 400"] e by blast
  then have re: "validateLocationPointDetailed num_str_whole ?e =
      \<lparr>isValid = False,
       error = Some
         \<lparr>code = INVALID_HEADING,
          message = ''Invalid heading: 400. Must be between 0 and 360 or null.'',
          field = ''heading''\<rparr>\<rparr>"
    by (simp add: num_str_whole_values)
  have rf: "validateLocationPointDetailed num_str_whole sample_point =
      \<lparr>isValid = True, error = None\<rparr>"
    using validateLocationPointDetailed_first_failure [of sample_point num_str_whole] f
    by blast
  have rg: "validateLocationPointDetailed num_str_whole ?g = \<lparr>isValid = True, error = None\<rparr>"
    using validateLocationPointDetailed_first_failure [of ?g num_str_whole] g
    by blast
  show ?thesis
    using a b c d e ra rb rc rd re rf rg by blast
qed

lemma num_str_whole_special:
  "num_str_whole NaN = ''NaN''"
  "num_str_whole PosInf = ''Infinity''"
  "num_str_whole NegInf = ''-Infinity''"
  by (simp_all add: num_str_whole_def)

text \<open>
  C10, as stated, fails: negative infinity is a non-finite value, and a sample with
  coordinates in range and accuracy \<open>-Infinity\<close> is rejected.
\<close>

theorem negative_infinity_accuracy_counterexample:
  "isValidLatitude (latitude (sample_point\<lparr>accuracy := NegInf\<rparr>)) \<and>
   isValidLongitude (longitude (sample_point\<lparr>accuracy := NegInf\<rparr>)) \<and>
   accuracy (sample_point\<lparr>accuracy := NegInf\<rparr>) = NegInf \<and>
   validateLocationPointDetailed num_str_whole (sample_point\<lparr>accuracy := NegInf\<rparr>) =
     \<lparr>isValid = False,
      error = Some
        \<lparr>code = NEGATIVE_ACCURACY,
         message = ''Invalid accuracy: -Infinity. Must be non-negative.'',
         field = ''accuracy''\<rparr>\<rparr> \<and>
   validateLocationPoint num_str_whole (sample_point\<lparr>accuracy := NegInf\<rparr>) = False"
  by (simp add: validateLocationPoint_def validateLocationPointDetailed_def field_conditions
      sample_point_def num_str_whole_special)

text \<open>
  C10, amended: on a sample whose coordinates are in range, an accuracy that is \<open>NaN\<close> or
  \<open>+Infinity\<close>, a speed that is \<open>NaN\<close> or \<open>+Infinity\<close> and a heading that is \<open>NaN\<close> fail no check:
  with all three so the sample is valid, and with one of them so it is valid whenever the
  other two satisfy their conditions. \<open>-Infinity\<close> in accuracy, speed or heading and
  \<open>+Infinity\<close> in heading are rejected with the error of that field. A \<open>NaN\<close> latitude or
  longitude is rejected.
\<close>

theorem non_finite_fields_validation:
  "(isValidLatitude (latitude l) \<and> isValidLongitude (longitude l) \<longrightarrow>
      ((a = NaN \<or> a = PosInf) \<and> (v = NaN \<or> v = PosInf) \<longrightarrow>
         validateLocationPointDetailed ns (l\<lparr>accuracy := a, speed := Some v, heading := Some NaN\<rparr>) =
           \<lparr>isValid = True, error = None\<rparr> \<and>
         validateLocationPoint ns (l\<lparr>accuracy := a, speed := Some v, heading := Some NaN\<rparr>)) \<and>
      ((a = NaN \<or> a = PosInf) \<and> speed_null_or_non_negative l \<and> heading_null_or_in_range l \<longrightarrow>
         validateLocationPointDetailed ns (l\<lparr>accuracy := a\<rparr>) = \<lparr>isValid = True, error = None\<rparr> \<and>
         validateLocationPoint ns (l\<lparr>accuracy := a\<rparr>)) \<and>
      ((v = NaN \<or> v = PosInf) \<and> accuracy_non_negative l \<and> heading_null_or_in_range l \<longrightarrow>
         validateLocationPointDetailed ns (l\<lparr>speed := Some v\<rparr>) = \<lparr>isValid = True, error = None\<rparr> \<and>
         validateLocationPoint ns (l\<lparr>speed := Some v\<rparr>)) \<and>
      (accuracy_non_negative l \<and> speed_null_or_non_negative l \<longrightarrow>
         validateLocationPointDetailed ns (l\<lparr>heading := Some NaN\<rparr>) =
           \<lparr>isValid = True, error = None\<rparr> \<and>
         validateLocationPoint ns (l\<lparr>heading := Some NaN\<rparr>)) \<and>
      validateLocationPointDetailed ns (l\<lparr>accuracy := NegInf\<rparr>) =
        \<lparr>isValid = False,
         error = Some
           \<lparr>code = NEGATIVE_ACCURACY,
            message = ''Invalid accuracy: '' @ ns NegInf @ ''. Must be non-negative.'',
            field = ''accuracy''\<rparr>\<rparr> \<and>
      (accuracy_non_negative l \<longrightarrow>
         validateLocationPointDetailed ns (l\<lparr>speed := Some NegInf\<rparr>) =
           \<lparr>isValid = False,
            error = Some
              \<lparr>code = NEGATIVE_SPEED,
               message = ''Invalid speed: '' @ ns NegInf @ ''. Must be non-negative or null.'',
               field = ''speed''\<rparr>\<rparr>) \<and>
      (accuracy_non_negative l \<and> speed_null_or_non_negative l \<and> (h = NegInf \<or> h = PosInf) \<longrightarrow>
         validateLocationPointDetailed ns (l\<lparr>heading := Some h\<rparr>) =
           \<lparr>isValid = False,
            error = Some
              \<lparr>code = INVALID_HEADING,
               message = ''Invalid heading: '' @ ns h @ ''. Must be between 0 and 360 or null.'',
               field = ''heading''\<rparr>\<rparr>)) \<and>
   validateLocationPointDetailed ns (l\<lparr>latitude := NaN\<rparr>) =
     \<lparr>isValid = False,
      error = Some
        \<lparr>code = LATITUDE_OUT_OF_RANGE,
         message = ''Invalid latitude: '' @ ns NaN @ ''. Must be between -90 and 90.'',
         field = ''latitude''\<rparr>\<rparr> \<and>
   (isValidLatitude (latitude l) \<longrightarrow>
      validateLocationPointDetailed ns (l\<lparr>longitude := NaN\<rparr>) =
        \<lparr>isValid = False,
         error = Some
           \<lparr>code = LONGITUDE_OUT_OF_RANGE,
            message = ''Invalid longitude: '' @ ns NaN @ ''. Must be between -180 and 180.'',
            field = ''longitude''\<rparr>\<rparr>) \<and>
   \<not> validateLocationPoint ns (l\<lparr>latitude := NaN\<rparr>) \<and>
   \<not> validateLocationPoint ns (l\<lparr>longitude := NaN\<rparr>)"
proof -
  let ?ok = "\<lparr>isValid = True, error = None\<rparr>"
  have wrapper: "validateLocationPointDetailed ns x = ?ok \<Longrightarrow> validateLocationPoint ns x" for x
    by (simp add: validateLocationPoint_def)
  have 1: "validateLocationPointDetailed ns
             (l\<lparr>accuracy := a, speed := Some v, heading := Some NaN\<rparr>) = ?ok"
    if "isValidLatitude (latitude l)" "isValidLongitude (longitude l)"
      "a = NaN \<or> a = PosInf" "v = NaN \<or> v = PosInf"
    using that by (intro validate_all_pass) (auto simp: field_conditions)
  have 2: "validateLocationPointDetailed ns (l\<lparr>accuracy := a\<rparr>) = ?ok"
    if "isValidLatitude (latitude l)" "isValidLongitude (longitude l)"
      "a = NaN \<or> a = PosInf" "speed_null_or_non_negative l" "heading_null_or_in_range l"
    using that by (intro validate_all_pass) (auto simp: field_conditions)
  have 3: "validateLocationPointDetailed ns (l\<lparr>speed := Some v\<rparr>) = ?ok"
    if "isValidLatitude (latitude l)" "isValidLongitude (longitude l)"
      "v = NaN \<or> v = PosInf" "accuracy_non_negative l" "heading_null_or_in_range l"
    using that by (intro validate_all_pass) (auto simp: field_conditions)
  have 4: "validateLocationPointDetailed ns (l\<lparr>heading := Some NaN\<rparr>) = ?ok"
    if "isValidLatitude (latitude l)" "isValidLongitude (longitude l)"
      "accuracy_non_negative l" "speed_null_or_non_negative l"
    using that by (intro validate_all_pass) (auto simp: field_conditions)
  have 5: "validateLocationPointDetailed ns (l\<lparr>accuracy := NegInf\<rparr>) =
        \<lparr>isValid = False,
         error = Some
           \<lparr>code = NEGATIVE_ACCURACY,
            message = ''Invalid accuracy: '' @ ns NegInf @ ''. Must be non-negative.'',
            field = ''accuracy''\<rparr>\<rparr>"
    if "isValidLatitude (latitude l)" "isValidLongitude (longitude l)"
    using that validate_accuracy [of "l\<lparr>accuracy := NegInf\<rparr>" ns]
    by (simp add: field_conditions)
  have 6: "validateLocationPointDetailed ns (l\<lparr>speed := Some NegInf\<rparr>) =
           \<lparr>isValid = False,
            error = Some
              \<lparr>code = NEGATIVE_SPEED,
               message = ''Invalid speed: '' @ ns NegInf @ ''. Must be non-negative or null.'',
               field = ''speed''\<rparr>\<rparr>"
    if "isValidLatitude (latitude l)" "isValidLongitude (longitude l)" "accuracy_non_negative l"
    using that validate_speed [of "l\<lparr>speed := Some NegInf\<rparr>" NegInf ns]
    by (simp add: field_conditions)
  have 7: "validateLocationPointDetailed ns (l\<lparr>heading := Some h\<rparr>) =
           \<lparr>isValid = False,
            error = Some
              \<lparr>code = INVALID_HEADING,
               message = ''Invalid heading: '' @ ns h @ ''. Must be between 0 and 360 or null.'',
               field = ''heading''\<rparr>\<rparr>"
    if "isValidLatitude (latitude l)" "isValidLongitude (longitude l)" "accuracy_non_negative l"
      "speed_null_or_non_negative l" "h = NegInf \<or> h = PosInf"
    using that validate_heading [of "l\<lparr>heading := Some h\<rparr>" h ns]
    by (auto simp: field_conditions)
  have 8: "validateLocationPointDetailed ns (l\<lparr>latitude := NaN\<rparr>) =
     \<lparr>isValid = False,
      error = Some
        \<lparr>code = LATITUDE_OUT_OF_RANGE,
         message = ''Invalid latitude: '' @ ns NaN @ ''. Must be between -90 and 90.'',
         field = ''latitude''\<rparr>\<rparr>"
    using validate_latitude [of "l\<lparr>latitude := NaN\<rparr>" ns] by (simp add: field_conditions)
  have 9: "validateLocationPointDetailed ns (l\<lparr>longitude := NaN\<rparr>) =
        \<lparr>isValid = False,
         error = Some
           \<lparr>code = LONGITUDE_OUT_OF_RANGE,
            message = ''Invalid longitude: '' @ ns NaN @ ''. Must be between -180 and 180.'',
            field = ''longitude''\<rparr>\<rparr>"
    if "isValidLatitude (latitude l)"
    using that validate_longitude [of "l\<lparr>longitude := NaN\<rparr>" ns]
    by (simp add: field_conditions)
  have 10: "\<not> validateLocationPoint ns (l\<lparr>latitude := NaN\<rparr>)"
    using 8 by (simp add: validateLocationPoint_def)
  have 11: "\<not> validateLocationPoint ns (l\<lparr>longitude := NaN\<rparr>)"
  proof (cases "isValidLatitude (latitude l)")
    case True
    then show ?thesis using 9 by (simp add: validateLocationPoint_def)
  next
    case False
    then show ?thesis
      using validate_latitude [of "l\<lparr>longitude := NaN\<rparr>" ns]
      by (simp add: validateLocationPoint_def field_conditions)
  qed
  show ?thesis
    using 1 2 3 4 5 6 7 8 9 10 11 wrapper by blast
qed

theorem non_finite_fields_validation_witness:
  "isValidLatitude (latitude sample_point) \<and> isValidLongitude (longitude sample_point) \<and>
   accuracy_non_negative sample_point \<and> speed_null_or_non_negative sample_point \<and>
   heading_null_or_in_range sample_point \<and>
   validateLocationPointDetailed num_str_whole
       (sample_point\<lparr>accuracy := PosInf, speed := Some NaN, heading := Some NaN\<rparr>) =
     \<lparr>isValid = True, error = None\<rparr> \<and>
   validateLocationPoint num_str_whole (sample_point\<lparr>accuracy := NaN\<rparr>) \<and>
   validateLocationPoint num_str_whole (sample_point\<lparr>speed := Some PosInf\<rparr>) \<and>
   validateLocationPoint num_str_whole (sample_point\<lparr>heading := Some NaN\<rparr>) \<and>
   validateLocationPointDetailed num_str_whole (sample_point\<lparr>speed := Some NegInf\<rparr>) =
     \<lparr>isValid = False,
      error = Some
        \<lparr>code = NEGATIVE_SPEED,
         message = ''Invalid speed: -Infinity. Must be non-negative or null.'',
         field = ''speed''\<rparr>\<rparr> \<and>
   validateLocationPointDetailed num_str_whole (sample_point\<lparr>heading := Some PosInf\<rparr>) =
     \<lparr>isValid = False,
      error = Some
        \<lparr>code = INVALID_HEADING,
         message = ''Invalid heading: Infinity. Must be between 0 and 360 or null.'',
         field = ''heading''\<rparr>\<rparr> \<and>
   validateLocationPointDetailed num_str_whole (sample_point\<lparr>longitude := NaN\<rparr>) =
     \<lparr>isValid = False,
      error = Some
        \<lparr>code = LONGITUDE_OUT_OF_RANGE,
         message = ''Invalid longitude: NaN. Must be between -180 and 180.'',
         field = ''longitude''\<rparr>\<rparr>"
proof -
  have p: "isValidLatitude (latitude sample_point) \<and> isValidLongitude (longitude sample_point) \<and>
      accuracy_non_negative sample_point \<and> speed_null_or_non_negative sample_point \<and>
      heading_null_or_in_range sample_point"
    by (simp add: field_conditions sample_point_def)
  have 1: "validateLocationPointDetailed num_str_whole
       (sample_point\<lparr>accuracy := PosInf, speed := Some NaN, heading := Some NaN\<rparr>) =
     \<lparr>isValid = True, error = None\<rparr>"
    using non_finite_fields_validation [of sample_point PosInf NaN num_str_whole] p by simp
  have 2: "validateLocationPoint num_str_whole (sample_point\<lparr>accuracy := NaN\<rparr>)"
    using non_finite_fields_validation [of sample_point NaN _ num_str_whole] p by simp
  have 3: "validateLocationPoint num_str_whole (sample_point\<lparr>speed := Some PosInf\<rparr>)"
    using non_finite_fields_validation [of sample_point _ PosInf num_str_whole] p by simp
  have 4: "validateLocationPoint num_str_whole (sample_point\<lparr>heading := Some NaN\<rparr>)"
    using non_finite_fields_validation [of sample_point _ _ num_str_whole] p by simp
  have 5: "validateLocationPointDetailed num_str_whole (sample_point\<lparr>speed := Some NegInf\<rparr>) =
     \<lparr>isValid = False,
      error = Some
        \<lparr>code = NEGATIVE_SPEED,
         message = ''Invalid speed: -Infinity. Must be non-negative or null.'',
         field = ''speed''\<rparr>\<rparr>"
    using non_finite_fields_validation [of sample_point _ _ num_str_whole] p
    by (simp add: num_str_whole_special)
  have 6: "validateLocationPointDetailed num_str_whole (sample_point\<lparr>heading := Some PosInf\<rparr>) =
     \<lparr>isValid = False,
      error = Some
        \<lparr>code = INVALID_HEADING,
         message = ''Invalid heading: Infinity. Must be between 0 and 360 or null.'',
         field = ''heading''\<rparr>\<rparr>"
    using non_finite_fields_validation [of sample_point _ _ num_str_whole PosInf] p
    by (simp add: num_str_whole_special)
  have 7: "validateLocationPointDetailed num_str_whole (sample_point\<lparr>longitude := NaN\<rparr>) =
     \<lparr>isValid = False,
      error = Some
        \<lparr>code = LONGITUDE_OUT_OF_RANGE,
         message = ''Invalid longitude: NaN. Must be between -180 and 180.'',
         field = ''longitude''\<rparr>\<rparr>"
    using non_finite_fields_validation [of sample_point _ _ num_str_whole] p
    by (simp add: num_str_whole_special)
  show ?thesis
    using p 1 2 3 4 5 6 7 by blast
qed

section \<open>Catalog properties\<close>

lemma Map_set_fresh: "k \<notin> fst ` set m \<Longrightarrow> Map_set k v m = m @ [(k, v)]"
  by (induction m) auto

lemma Map_get_Map_set: "Map_get (Map_set k v m) k = Some v"
  by (induction m) (auto simp: Map_get_def)

lemma fold_Map_delete:
  "fold (\<lambda>r m. Map_delete (route_id r) m) ds m = filter (\<lambda>e. fst e \<notin> route_id ` set ds) m"
  by (induction ds arbitrary: m) (auto simp: Map_delete_def intro: filter_cong)

lemma consistent_keys:
  assumes "catalog_consistent s"
  shows "fst ` set (routeMap s) = route_id ` set (routes s)"
proof -
  have "set (routes s) = snd ` set (routeMap s)"
    using assms mset_eq_setD [of "map snd (routeMap s)" "routes s"]
    by (simp add: catalog_consistent_def)
  moreover have "fst ` set (routeMap s) = route_id ` snd ` set (routeMap s)"
    using assms by (force simp: catalog_consistent_def)
  ultimately show ?thesis by simp
qed

lemma addRoute_consistent:
  assumes "catalog_consistent s" and fresh: "route_id r \<notin> route_id ` set (routes s)"
  shows "catalog_consistent (addRoute r s)"
proof -
  have "route_id r \<notin> fst ` set (routeMap s)"
    using consistent_keys [OF assms(1)] fresh by simp
  then have "Map_set (route_id r) r (routeMap s) = routeMap s @ [(route_id r, r)]"
    by (rule Map_set_fresh)
  then show ?thesis
    using assms(1) \<open>route_id r \<notin> fst ` set (routeMap s)\<close>
    by (auto simp: catalog_consistent_def addRoute_def sortRoutesByTime_def Let_def)
qed

lemma delete_keeps_other_names:
  assumes c: "catalog_consistent s" and e: "e \<in> set (routeMap s)"
  shows "fst e \<notin> route_id ` set (filter (\<lambda>r. name r = t) (routes s)) \<longleftrightarrow> name (snd e) \<noteq> t"
proof -
  have routes_eq: "set (routes s) = snd ` set (routeMap s)"
    using c mset_eq_setD [of "map snd (routeMap s)" "routes s"]
    by (simp add: catalog_consistent_def)
  have key: "\<And>x. x \<in> set (routeMap s) \<Longrightarrow> fst x = route_id (snd x)"
    using c by (simp add: catalog_consistent_def)
  have inj: "inj_on fst (set (routeMap s))"
    using c by (simp add: catalog_consistent_def distinct_map)
  show ?thesis
  proof
    assume notin: "fst e \<notin> route_id ` set (filter (\<lambda>r. name r = t) (routes s))"
    show "name (snd e) \<noteq> t"
    proof
      assume "name (snd e) = t"
      moreover have "snd e \<in> set (routes s)" using e routes_eq by auto
      ultimately have "route_id (snd e) \<in> route_id ` set (filter (\<lambda>r. name r = t) (routes s))"
        by auto
      then show False using notin key [OF e] by simp
    qed
  next
    assume other: "name (snd e) \<noteq> t"
    show "fst e \<notin> route_id ` set (filter (\<lambda>r. name r = t) (routes s))"
    proof
      assume "fst e \<in> route_id ` set (filter (\<lambda>r. name r = t) (routes s))"
      then obtain r where r: "r \<in> set (routes s)" "name r = t" "fst e = route_id r"
        by auto
      from r(1) routes_eq obtain e' where e': "e' \<in> set (routeMap s)" "snd e' = r"
        by auto
      have "fst e' = fst e" using key [OF e'(1)] e'(2) r(3) by simp
      then have "e' = e" using inj e e'(1) by (auto dest: inj_onD)
      then show False using e'(2) r(2) other by simp
    qed
  qed
qed

lemma deleteRouteByTitle_state:
  "filter (\<lambda>r. name r = t) (routes s) \<noteq> [] \<Longrightarrow>
   snd (deleteRouteByTitle t s) =
     s\<lparr>routes := filter (\<lambda>r. name r \<noteq> t) (routes s),
       routeMap := filter (\<lambda>e. fst e \<notin> route_id ` set (filter (\<lambda>r. name r = t) (routes s)))
                     (routeMap s)\<rparr>"
  unfolding deleteRouteByTitle_def Let_def fold_Map_delete by simp

lemma deleteRouteByTitle_consistent:
  assumes c: "catalog_consistent s"
  shows "catalog_consistent (snd (deleteRouteByTitle t s))"
proof (cases "filter (\<lambda>r. name r = t) (routes s) = []")
  case True
  then show ?thesis using c by (simp add: deleteRouteByTitle_def)
next
  case False
  define m where
    "m = filter (\<lambda>e. fst e \<notin> route_id ` set (filter (\<lambda>r. name r = t) (routes s))) (routeMap s)"
  have m: "m = filter (\<lambda>e. name (snd e) \<noteq> t) (routeMap s)"
    unfolding m_def
  proof (rule filter_cong [OF refl])
    fix e assume "e \<in> set (routeMap s)"
    then show "(fst e \<notin> route_id ` set (filter (\<lambda>r. name r = t) (routes s))) = (name (snd e) \<noteq> t)"
      by (rule delete_keeps_other_names [OF c])
  qed
  have "map snd m = filter (\<lambda>r. name r \<noteq> t) (map snd (routeMap s))"
    unfolding m by (simp add: filter_map comp_def)
  then have "mset (map snd m) = filter_mset (\<lambda>r. name r \<noteq> t) (mset (map snd (routeMap s)))"
    by simp
  also have "\<dots> = mset (filter (\<lambda>r. name r \<noteq> t) (routes s))"
    using c by (simp add: catalog_consistent_def)
  finally have 1: "mset (map snd m) = mset (filter (\<lambda>r. name r \<noteq> t) (routes s))" .
  have 2: "distinct (map fst m)"
    unfolding m using c by (simp add: catalog_consistent_def distinct_map_filter)
  have 3: "\<forall>e \<in> set m. fst e = route_id (snd e)"
    unfolding m using c by (simp add: catalog_consistent_def)
  have "snd (deleteRouteByTitle t s) =
          s\<lparr>routes := filter (\<lambda>r. name r \<noteq> t) (routes s), routeMap := m\<rparr>"
    unfolding m_def using False by (rule deleteRouteByTitle_state)
  then show ?thesis
    using 1 2 3 by (simp add: catalog_consistent_def)
qed

text \<open>
  C2, as stated, fails: adding the same route twice to the empty catalog leaves two
  entries in the sequence and one in the mapping, and the two structures disagree.
\<close>

theorem addRoute_twice_counterexample:
  "catalog_consistent initialRouteState \<and>
   routes (addRoute one_point_route (addRoute one_point_route initialRouteState)) =
     [one_point_route, one_point_route] \<and>
   routeMap (addRoute one_point_route (addRoute one_point_route initialRouteState)) =
     [(''morning-walk-1'', one_point_route)] \<and>
   \<not> catalog_consistent (addRoute one_point_route (addRoute one_point_route initialRouteState))"
  by (simp add: catalog_consistent_def addRoute_def sortRoutesByTime_def initialRouteState_def
      one_point_route_def Let_def)

lemma Map_get_after_Map_set: "Map_get (Map_set k v m) = (Map_get m)(k \<mapsto> v)"
  by (induction m) (auto simp: Map_get_def fun_eq_iff)

lemma keys_after_Map_set:
  "map fst (Map_set k v m) = (if k \<in> set (map fst m) then map fst m else map fst m @ [k])"
  by (induction m) auto

lemma deleteRouteByTitle_routes:
  "routes (snd (deleteRouteByTitle t s)) = filter (\<lambda>r. name r \<noteq> t) (routes s)"
proof (cases "filter (\<lambda>r. name r = t) (routes s) = []")
  case True
  then have "\<forall>r \<in> set (routes s). name r \<noteq> t"
    by (simp add: filter_empty_conv)
  then have "filter (\<lambda>r. name r \<noteq> t) (routes s) = routes s"
    by simp
  then show ?thesis using True by (simp add: deleteRouteByTitle_def)
next
  case False
  then show ?thesis by (simp add: deleteRouteByTitle_state)
qed

lemma deleteRouteByTitle_result:
  "fst (deleteRouteByTitle t s) = (\<exists>r \<in> set (routes s). name r = t)"
  by (auto simp: deleteRouteByTitle_def Let_def filter_empty_conv)

text \<open>
  C2, amended: for every catalog state and every route \<open>r\<close>, \<open>addRoute\<close> inserts or replaces
  the mapping entry for \<open>r\<close>'s id, leaving every other entry and the number of entries per
  id as they were, and adds \<open>r\<close> to the sequence as one more element; \<open>deleteRouteByTitle\<close>
  keeps exactly the routes of other titles in the sequence. From a consistent catalog,
  \<open>addRoute\<close> of a route whose id the catalog does not hold yet and \<open>deleteRouteByTitle\<close> of
  any title give a consistent catalog again.
\<close>

theorem catalog_operations_consistent:
  "Map_get (routeMap (addRoute r s)) = (Map_get (routeMap s))(route_id r \<mapsto> r) \<and>
   Map_get (routeMap (addRoute r s)) (route_id r) = Some r \<and>
   map fst (routeMap (addRoute r s)) =
     (if route_id r \<in> set (map fst (routeMap s)) then map fst (routeMap s)
      else map fst (routeMap s) @ [route_id r]) \<and>
   mset (routes (addRoute r s)) = add_mset r (mset (routes s)) \<and>
   routes (snd (deleteRouteByTitle t s)) = filter (\<lambda>x. name x \<noteq> t) (routes s) \<and>
   (catalog_consistent s \<longrightarrow>
      (route_id r \<notin> route_id ` set (routes s) \<longrightarrow> catalog_consistent (addRoute r s)) \<and>
      catalog_consistent (snd (deleteRouteByTitle t s)))"
proof -
  have 1: "Map_get (routeMap (addRoute r s)) = (Map_get (routeMap s))(route_id r \<mapsto> r)"
    by (simp add: addRoute_def Let_def Map_get_after_Map_set)
  have 2: "Map_get (routeMap (addRoute r s)) (route_id r) = Some r"
    by (simp add: addRoute_def Let_def Map_get_Map_set)
  have 3: "map fst (routeMap (addRoute r s)) =
     (if route_id r \<in> set (map fst (routeMap s)) then map fst (routeMap s)
      else map fst (routeMap s) @ [route_id r])"
    unfolding addRoute_def Let_def using keys_after_Map_set [of "route_id r" r "routeMap s"]
    by simp
  have 4: "mset (routes (addRoute r s)) = add_mset r (mset (routes s))"
    by (simp add: addRoute_def Let_def sortRoutesByTime_def)
  have 5: "routes (snd (deleteRouteByTitle t s)) = filter (\<lambda>x. name x \<noteq> t) (routes s)"
    by (rule deleteRouteByTitle_routes)
  show ?thesis
    using 1 2 3 4 5 addRoute_consistent [of s r] deleteRouteByTitle_consistent [of s t]
    by blast
qed

theorem catalog_operations_consistent_witness:
  "catalog_consistent one_route_catalog \<and>
   route_id evening_route \<notin> route_id ` set (routes one_route_catalog) \<and>
   catalog_consistent (addRoute evening_route one_route_catalog) \<and>
   catalog_consistent (snd (deleteRouteByTitle ''Morning Walk'' one_route_catalog)) \<and>
   Map_get (routeMap (addRoute evening_route one_route_catalog)) ''evening-jog-2'' =
     Some evening_route \<and>
   Map_get (routeMap (addRoute evening_route one_route_catalog)) ''morning-walk-1'' =
     Some one_point_route \<and>
   map fst (routeMap (addRoute evening_route one_route_catalog)) =
     [''morning-walk-1'', ''evening-jog-2''] \<and>
   routes (snd (deleteRouteByTitle ''Morning Walk'' one_route_catalog)) = []"
proof -
  have 1: "catalog_consistent one_route_catalog"
    by (simp add: catalog_consistent_def one_route_catalog_def addRoute_def sortRoutesByTime_def
        initialRouteState_def Let_def)
  have 2: "route_id evening_route \<notin> route_id ` set (routes one_route_catalog)"
    by (simp add: one_route_catalog_def addRoute_def sortRoutesByTime_def initialRouteState_def
        Let_def evening_route_def one_point_route_def)
  have 3: "route_id evening_route = ''evening-jog-2''"
    by (simp add: evening_route_def)
  have 4: "routeMap one_route_catalog = [(''morning-walk-1'', one_point_route)]"
    by (simp add: one_route_catalog_def addRoute_def initialRouteState_def Let_def
        one_point_route_def)
  have 5: "routes one_route_catalog = [one_point_route]"
    by (simp add: one_route_catalog_def addRoute_def sortRoutesByTime_def initialRouteState_def
        Let_def)
  have 6: "name one_point_route = ''Morning Walk''"
    by (simp add: one_point_route_def)
  show ?thesis
    using catalog_operations_consistent [of evening_route one_route_catalog "''Morning Walk''"]
      1 2 3 4 5 6 by (simp add: Map_get_def)
qed

section \<open>Export properties\<close>

lemma toString_or_empty_simps:
  "toString_or_empty ns None = []"
  "toString_or_empty ns (Some v) = ns v"
  by (simp_all add: toString_or_empty_def)

lemma array_join_Cons:
  "array_join sep (x # xs) = x @ concat (map (\<lambda>r. sep @ r) xs)"
  by (induction xs arbitrary: x) simp_all

text \<open>
  For a non-empty route list the output is the headers, which end in a newline, then for
  each row a newline and the row, then a newline.
\<close>

lemma makeCSVData_nonempty:
  "rs \<noteq> [] \<Longrightarrow>
   makeCSVData ns iso_str rs =
     csv_headers @
     concat (map (\<lambda>row. newline # row) (concat (map (route_rows ns iso_str) rs))) @ [newline]"
  by (simp add: makeCSVData_def array_join_Cons)

lemma makeCSVData_empty: "makeCSVData ns iso_str [] = csv_headers"
  by (simp add: makeCSVData_def)

text \<open>
  C4 at one route with one sample whose speed and heading are \<open>null\<close>: the output is the
  header line, an empty line, and the row of the sample, which ends in two empty fields.
  The empty line is not a row of any sample.
\<close>

theorem makeCSVData_blank_line_after_header:
  "makeCSVData ns iso_str [one_point_route] =
     ''Route,Latitude,Longitude,Timestamp,Accuracy,Speed,Heading'' @ [newline] @ [newline] @
     ''Morning Walk,'' @ ns (Fin 35) @ '','' @ ns (Fin 139) @ '','' @ iso_str 1000 @ '','' @
     ns (Fin 5) @ '',,'' @ [newline]"
  by (simp add: makeCSVData_def csv_headers_def route_rows_def formatCsvRow_def escapeCsvValue_def
      toString_or_empty_simps one_point_route_def null_motion_point_def sample_point_def
      newline_def dquote_def)

section \<open>Materialization properties\<close>

text \<open>
  The grouping throws as soon as one title names a property of \<open>Object.prototype\<close>
  (\<open>group_loop_throws\<close>). On all other row sequences it yields one route per distinct
  title, with the rows of that title in query order, their number as \<open>pointCount\<close>, and
  the least and greatest time value as \<open>startTime\<close> and \<open>endTime\<close>
  (\<open>groupFootprintsByTitle_ok\<close>).
\<close>

lemma map_of_Map_set: "map_of (Map_set k v m) = (map_of m)(k \<mapsto> v)"
  by (induction m) (auto simp: fun_eq_iff)

lemma keys_Map_set: "fst ` set (Map_set k v m) = insert k (fst ` set m)"
  by (induction m) auto

lemma distinct_Map_set: "distinct (map fst m) \<Longrightarrow> distinct (map fst (Map_set k v m))"
  by (induction m) (auto simp: keys_Map_set)

lemma group_step_own:
  "map_of grouped (title fp) = Some g \<Longrightarrow>
   group_step fp grouped = Inr (Map_set (title fp) (g @ [fp]) grouped)"
  by (simp add: group_step_def Let_def)

lemma group_step_new:
  "map_of grouped (title fp) = None \<Longrightarrow> title fp \<notin> set Object_prototype_keys \<Longrightarrow>
   \<exists>grouped'. group_step fp grouped = Inr grouped' \<and>
     map_of grouped' = (map_of grouped)(title fp \<mapsto> [fp]) \<and>
     (distinct (map fst grouped) \<longrightarrow> distinct (map fst grouped'))"
  by (simp add: group_step_def Let_def map_of_Map_set distinct_Map_set)

lemma group_step_inherited:
  "map_of grouped (title fp) = None \<Longrightarrow> title fp \<in> set Object_prototype_keys \<Longrightarrow>
   group_step fp grouped = Inl TypeError"
  by (simp add: group_step_def Let_def)

lemma group_step_ok:
  assumes "title fp \<notin> set Object_prototype_keys"
  shows "\<exists>grouped'. group_step fp grouped = Inr grouped' \<and>
     map_of grouped' =
       (map_of grouped)(title fp \<mapsto> (case map_of grouped (title fp) of None \<Rightarrow> [] | Some g \<Rightarrow> g) @ [fp]) \<and>
     (distinct (map fst grouped) \<longrightarrow> distinct (map fst grouped'))"
proof (cases "map_of grouped (title fp)")
  case None
  then show ?thesis using group_step_new [OF None assms] by simp
next
  case (Some g)
  then show ?thesis
    by (simp add: group_step_own map_of_Map_set distinct_Map_set)
qed

lemma group_loop_ok:
  assumes "\<forall>f \<in> set fps. title f \<notin> set Object_prototype_keys"
  shows "\<exists>grouped'. group_loop fps grouped = Inr grouped' \<and>
     (\<forall>t. map_of grouped' t =
        (case map_of grouped t of
           None \<Rightarrow> if rows_of t fps = [] then None else Some (rows_of t fps)
         | Some g \<Rightarrow> Some (g @ rows_of t fps))) \<and>
     (distinct (map fst grouped) \<longrightarrow> distinct (map fst grouped'))"
  using assms
proof (induction fps arbitrary: grouped)
  case Nil
  then show ?case by (simp add: rows_of_def split: option.splits)
next
  case (Cons fp fps)
  from Cons.prems have fp: "title fp \<notin> set Object_prototype_keys"
    and rest: "\<forall>f \<in> set fps. title f \<notin> set Object_prototype_keys" by simp_all
  from group_step_ok [OF fp, of grouped] obtain g1 where
    g1: "group_step fp grouped = Inr g1"
    and m1: "map_of g1 =
       (map_of grouped)(title fp \<mapsto> (case map_of grouped (title fp) of None \<Rightarrow> [] | Some g \<Rightarrow> g) @ [fp])"
    and d1: "distinct (map fst grouped) \<longrightarrow> distinct (map fst g1)"
    by blast
  from Cons.IH [OF rest, of g1] obtain g2 where
    g2: "group_loop fps g1 = Inr g2"
    and m2: "\<forall>t. map_of g2 t =
        (case map_of g1 t of
           None \<Rightarrow> if rows_of t fps = [] then None else Some (rows_of t fps)
         | Some g \<Rightarrow> Some (g @ rows_of t fps))"
    and d2: "distinct (map fst g1) \<longrightarrow> distinct (map fst g2)"
    by blast
  have "group_loop (fp # fps) grouped = Inr g2"
    using g1 g2 by simp
  moreover have "\<forall>t. map_of g2 t =
        (case map_of grouped t of
           None \<Rightarrow> if rows_of t (fp # fps) = [] then None else Some (rows_of t (fp # fps))
         | Some g \<Rightarrow> Some (g @ rows_of t (fp # fps)))"
    using m2 m1 by (auto simp: rows_of_def split: option.splits)
  ultimately show ?case using d1 d2 by blast
qed

lemma group_loop_throws:
  assumes "\<exists>f \<in> set fps. title f \<in> set Object_prototype_keys"
    and "fst ` set grouped \<inter> set Object_prototype_keys = {}"
  shows "group_loop fps grouped = Inl TypeError"
  using assms
proof (induction fps arbitrary: grouped)
  case Nil
  then show ?case by simp
next
  case (Cons fp fps)
  show ?case
  proof (cases "title fp \<in> set Object_prototype_keys")
    case True
    then have "title fp \<notin> fst ` set grouped" using Cons.prems(2) by blast
    then have "map_of grouped (title fp) = None" by (simp add: map_of_eq_None_iff)
    then show ?thesis using True by (simp add: group_step_inherited)
  next
    case False
    from group_step_ok [OF False, of grouped] obtain g1 where
      g1: "group_step fp grouped = Inr g1"
      and m1: "map_of g1 =
         (map_of grouped)(title fp \<mapsto> (case map_of grouped (title fp) of None \<Rightarrow> [] | Some g \<Rightarrow> g) @ [fp])"
      by blast
    have "dom (map_of g1) = insert (title fp) (dom (map_of grouped))"
      unfolding m1 by simp
    then have "fst ` set g1 = insert (title fp) (fst ` set grouped)"
      by (simp add: dom_map_of_conv_image_fst)
    then have disj: "fst ` set g1 \<inter> set Object_prototype_keys = {}"
      using False Cons.prems(2) by auto
    have "\<exists>f \<in> set fps. title f \<in> set Object_prototype_keys"
      using Cons.prems(1) False by auto
    from Cons.IH [OF this disj] show ?thesis using g1 by simp
  qed
qed

lemma mset_Object_entries: "mset (Object_entries obj) = mset obj"
  by (simp add: Object_entries_def)

lemma Math_min_Min: "Math_min (x # xs) = Min (set (x # xs))"
  using Min.set_eq_fold [of x xs] by simp

lemma Math_max_Max: "Math_max (x # xs) = Max (set (x # xs))"
  using Max.set_eq_fold [of x xs] by simp

lemma map_throwing_Inr:
  assumes "\<forall>x \<in> set xs. \<exists>y. f x = Inr y"
  shows "map_throwing f xs = Inr (map (\<lambda>x. projr (f x)) xs)"
  using assms by (induction xs) auto

lemma group_to_route_nonempty:
  assumes "g \<noteq> []"
  shows "\<exists>r. group_to_route nd (t, g) = Inr r \<and> name r = t \<and>
           route_id r = generateRouteId t (row_id (hd g)) \<and>
           route_locationPoints r = map (transformFootprintToLocationPoint nd) g \<and>
           pointCount r = int (length g) \<and>
           route_startTime r = Min (timestamp ` set (route_locationPoints r)) \<and>
           endTime r = Max (timestamp ` set (route_locationPoints r))"
proof -
  from assms obtain fp fps where g: "g = fp # fps" by (cases g) auto
  show ?thesis
    unfolding g
    by (simp add: Let_def Math_min_Min Math_max_Max image_image del: Math_min.simps Math_max.simps)
qed

lemma rows_of_empty_iff: "rows_of t fps = [] \<longleftrightarrow> t \<notin> title ` set fps"
  by (auto simp: rows_of_def filter_empty_conv)

lemma groupFootprintsByTitle_ok:
  assumes "\<forall>f \<in> set fps. title f \<notin> set Object_prototype_keys"
  shows "\<exists>rs. groupFootprintsByTitle nd fps = Inr rs \<and>
           distinct (map name rs) \<and> name ` set rs = title ` set fps \<and>
           (\<forall>r \<in> set rs.
              route_locationPoints r =
                map (transformFootprintToLocationPoint nd) (rows_of (name r) fps) \<and>
              pointCount r = int (length (rows_of (name r) fps)) \<and>
              route_startTime r = Min (timestamp ` set (route_locationPoints r)) \<and>
              endTime r = Max (timestamp ` set (route_locationPoints r)) \<and>
              route_id r = generateRouteId (name r) (row_id (hd (rows_of (name r) fps))))"
proof -
  from group_loop_ok [OF assms, of "[]"] obtain g' where
    loop: "group_loop fps [] = Inr g'"
    and m: "\<And>t. map_of g' t = (if rows_of t fps = [] then None else Some (rows_of t fps))"
    and d: "distinct (map fst g')"
    by auto
  define es where "es = Object_entries g'"
  have mset_es: "mset es = mset g'"
    by (simp add: es_def mset_Object_entries)
  have set_es: "set es = set g'"
    using mset_es by (rule mset_eq_setD)
  have "mset (map fst es) = mset (map fst g')"
    using mset_es by (metis mset_map)
  then have d_es: "distinct (map fst es)"
    using d by (metis mset_eq_imp_distinct_iff)
  have entry: "snd e = rows_of (fst e) fps \<and> rows_of (fst e) fps \<noteq> []" if "e \<in> set es" for e
  proof -
    have "(fst e, snd e) \<in> set g'" using that set_es by simp
    then have "map_of g' (fst e) = Some (snd e)" using d by simp
    then show ?thesis using m [of "fst e"] by (auto split: if_splits)
  qed
  define mk where "mk = (\<lambda>e. projr (group_to_route nd e))"
  have route: "group_to_route nd e = Inr (mk e) \<and> name (mk e) = fst e \<and>
       route_id (mk e) = generateRouteId (fst e) (row_id (hd (rows_of (fst e) fps))) \<and>
       route_locationPoints (mk e) =
         map (transformFootprintToLocationPoint nd) (rows_of (fst e) fps) \<and>
       pointCount (mk e) = int (length (rows_of (fst e) fps)) \<and>
       route_startTime (mk e) = Min (timestamp ` set (route_locationPoints (mk e))) \<and>
       endTime (mk e) = Max (timestamp ` set (route_locationPoints (mk e)))"
    if "e \<in> set es" for e
  proof -
    from entry [OF that] have ne: "rows_of (fst e) fps \<noteq> []" and
      e: "e = (fst e, rows_of (fst e) fps)" by (simp_all add: prod_eq_iff)
    from group_to_route_nonempty [OF ne, of nd "fst e"] obtain r where
      r: "group_to_route nd (fst e, rows_of (fst e) fps) = Inr r" "name r = fst e"
        "route_id r = generateRouteId (fst e) (row_id (hd (rows_of (fst e) fps)))"
        "route_locationPoints r = map (transformFootprintToLocationPoint nd) (rows_of (fst e) fps)"
        "pointCount r = int (length (rows_of (fst e) fps))"
        "route_startTime r = Min (timestamp ` set (route_locationPoints r))"
        "endTime r = Max (timestamp ` set (route_locationPoints r))"
      by blast
    have "group_to_route nd e = Inr r" using r(1) e by simp
    then have "mk e = r" by (simp add: mk_def)
    then show ?thesis using r \<open>group_to_route nd e = Inr r\<close> by simp
  qed
  have "map_throwing (group_to_route nd) es = Inr (map mk es)"
    unfolding mk_def using route by (intro map_throwing_Inr) blast
  then have res: "groupFootprintsByTitle nd fps = Inr (map mk es)"
    by (simp add: groupFootprintsByTitle_def loop es_def)
  have names: "map name (map mk es) = map fst es"
    using route by simp
  have "fst ` set es = title ` set fps"
  proof -
    have "fst ` set g' = dom (map_of g')" by (simp add: dom_map_of_conv_image_fst)
    also have "\<dots> = {t. rows_of t fps \<noteq> []}" by (auto simp: dom_def m)
    also have "\<dots> = title ` set fps" by (auto simp: rows_of_empty_iff)
    finally show ?thesis using set_es by simp
  qed
  then have 1: "name ` set (map mk es) = title ` set fps"
    using names by (metis list.set_map)
  have 2: "distinct (map name (map mk es))"
    unfolding names by (rule d_es)
  have 3: "\<forall>r \<in> set (map mk es).
              route_locationPoints r =
                map (transformFootprintToLocationPoint nd) (rows_of (name r) fps) \<and>
              pointCount r = int (length (rows_of (name r) fps)) \<and>
              route_startTime r = Min (timestamp ` set (route_locationPoints r)) \<and>
              endTime r = Max (timestamp ` set (route_locationPoints r)) \<and>
              route_id r = generateRouteId (name r) (row_id (hd (rows_of (name r) fps)))"
    using route by auto
  show ?thesis using res 1 2 3 by blast
qed

text \<open>
  Two rows of one title around a row of another: two routes, the first with two points and
  the earlier and later time value of its rows, whatever the order of the two.
\<close>

lemma is_array_index_names:
  "\<not> is_array_index ''Morning Walk''" "\<not> is_array_index ''Evening Jog''"
  by (simp_all add: is_array_index_def is_digit_def)

lemma generateRouteId_values:
  "generateRouteId ''Morning Walk'' 1 = ''morning-walk-1''"
  "generateRouteId ''Evening Jog'' 2 = ''evening-jog-2''"
  by code_simp+

text \<open>A no-break space is whitespace, and an accented capital has a lower case.\<close>

lemma generateRouteId_latin1:
  "generateRouteId [CHR ''a'', CHR 0xA0, CHR 0x09, CHR ''B'', CHR 0xC9] 7 =
     [CHR ''a'', CHR ''-'', CHR ''b'', CHR 0xE9, CHR ''-'', CHR ''7'']"
  by code_simp

lemma fetchFootprints_two_titles:
  "map_sum id (map (\<lambda>r. (route_id r, name r, route_startTime r, endTime r, pointCount r)))
     (fetchFootprints nd
        (Some [walk_row 1 ''Morning Walk'' ''t1'', walk_row 2 ''Evening Jog'' ''t3'',
               walk_row 3 ''Morning Walk'' ''t2''])) =
   Inr [(''morning-walk-1'', ''Morning Walk'', min (nd ''t2'') (nd ''t1''),
           max (nd ''t2'') (nd ''t1''), 2),
        (''evening-jog-2'', ''Evening Jog'', nd ''t3'', nd ''t3'', 1)]"
  by (simp add: fetchFootprints_def groupFootprintsByTitle_def group_step_def Let_def
      Object_prototype_keys_def Object_entries_def is_array_index_names generateRouteId_values
      walk_row_def transformFootprintToLocationPoint_def)

lemma fetchFootprints_empty: "fetchFootprints nd (Some []) = Inr []"
  by (simp add: fetchFootprints_def)

lemma fetchFootprints_not_initialized:
  "fetchFootprints nd None = Inl (Error ''Database not initialized'')"
  by (simp add: fetchFootprints_def)

text \<open>
  C7 at one row whose title is \<open>constructor\<close>: \<open>grouped["constructor"]\<close> reads the inherited
  \<open>Object.prototype.constructor\<close>, so no array is created and \<open>push\<close> throws; no route is
  produced.
\<close>

theorem fetchFootprints_constructor_title_throws:
  "fetchFootprints new_Date (Some [constructor_row]) = Inl TypeError"
  by (simp add: fetchFootprints_def groupFootprintsByTitle_def group_step_def constructor_row_def
      Object_prototype_keys_def)

end
